theory Spec2Isabelle
  imports Complex_Main
begin

section \<open>Data model of the streaming pipeline\<close>

text \<open>
  The embedding follows \<^verbatim>\<open>src/transcriptor/pipeline/streaming.py\<close>, with
  \<^verbatim>\<open>align_words\<close> and \<^verbatim>\<open>diarize\<close> from the transcription package.
  \<^item> A Python float is the rational it denotes, and every float operation is the exact
    operation followed by the rounding \<open>float_round\<close> of the environment, which stands for
    IEEE rounding to the nearest double and of which nothing is assumed.
  \<^item> The state files on disk are a map from file names to contents; \<^verbatim>\<open>hashlib.md5\<close> is
    taken as collision free, so a state file is named by the text that the source hashes.
  \<^item> A stage result is a value of the type \<open>payload\<close>; a worker that meets a stored result
    of another shape than its upstream stage writes raises, as Python does on \<^verbatim>\<open>None\<close>.
  \<^item> The callbacks return normally. Logging, \<^verbatim>\<open>task_done\<close> and the shutdown sentinel
    are not part of the model.
\<close>

datatype ProcessingStage =
    EXTRACT_AUDIO
  | VAD_SEGMENTATION
  | TRANSCRIPTION
  | ALIGNMENT
  | DIARIZATION
  | MERGE_SEGMENTS
  | EXPORT

fun stage_value :: "ProcessingStage \<Rightarrow> string" where
  "stage_value EXTRACT_AUDIO = ''extract_audio''"
| "stage_value VAD_SEGMENTATION = ''vad_segmentation''"
| "stage_value TRANSCRIPTION = ''transcription''"
| "stage_value ALIGNMENT = ''alignment''"
| "stage_value DIARIZATION = ''diarization''"
| "stage_value MERGE_SEGMENTS = ''merge_segments''"
| "stage_value EXPORT = ''export''"

text \<open>The payloads that the stages store in \<^verbatim>\<open>ProcessingState.result\<close>.\<close>

record transcription_segment =
  ts_text :: string
  ts_start :: rat
  ts_end :: rat

record transcription_result =
  tr_segments :: "transcription_segment list"
  tr_language :: string

record transcription_item =
  segment_path :: string
  item_result :: transcription_result

text \<open>A word of an aligned segment; \<open>w_speaker\<close> is the key \<^verbatim>\<open>'speaker'\<close>, absent until Merge.\<close>

record word =
  w_word :: string
  w_start :: rat
  w_end :: rat
  w_speaker :: "string option"

text \<open>An aligned segment; \<open>seg_words = None\<close> when the key \<^verbatim>\<open>'words'\<close> is absent.\<close>

record aligned_segment =
  seg_text :: string
  seg_start :: rat
  seg_end :: rat
  seg_words :: "word list option"

record diarization_segment =
  d_start :: rat
  d_end :: rat
  d_speaker :: string

datatype payload =
    PNone
  | PStr string
  | PStrList "string list"
  | PTranscriptions "transcription_item list"
  | PSegments "aligned_segment list"
  | PDiarization "diarization_segment list"

record ProcessingState =
  file_path :: string
  stage :: ProcessingStage
  status :: string
  progress :: rat
  result :: payload
  error :: "string option"
  timestamp :: rat

text \<open>
  What a state file holds: the JSON of a state, or text that \<^verbatim>\<open>json.load\<close> rejects
  (the file was opened for writing and \<^verbatim>\<open>json.dump\<close> failed part way).
\<close>

datatype file_content = Json ProcessingState | Garbage

datatype write_outcome = WriteOk | OpenFails | DumpFails

datatype 'a outcome = Returns 'a | Raises

datatype collaborator = Preprocessor | Vad | Transcriber | Aligner | Diarizer

text \<open>
  The pipeline object's mutable state and what it can observe: the state files, the seven
  queues, the wall clock, and (as ghost fields) the calls made to the progress callback,
  to the completion callback and to the collaborators, the latter with the file being
  processed.
\<close>

record world =
  files :: "string \<rightharpoonup> file_content"
  extraction_queue :: "string list"
  vad_queue :: "string list"
  transcription_queue :: "string list"
  alignment_queue :: "string list"
  diarization_queue :: "string list"
  merge_queue :: "string list"
  export_queue :: "string list"
  clock :: rat
  progress_events :: "ProcessingState list"
  completion_events :: "(string \<times> payload) list"
  collab_calls :: "(collaborator \<times> string) list"

text \<open>
  The configuration and the external collaborators. A collaborator is a function of its
  arguments that returns or raises. \<open>disk_write\<close> says how writing a state file ends.
\<close>

record env =
  diarization_setting :: bool
  language_setting :: "string option"
  progress_callback_set :: bool
  completion_callback_set :: bool
  disk_write :: "string \<Rightarrow> write_outcome"
  process_audio_pipeline :: "string \<Rightarrow> string option outcome"
  segment_audio :: "payload \<Rightarrow> string list option outcome"
  transcribe :: "string \<Rightarrow> string option \<Rightarrow> transcription_result option outcome"
  whisperx_align ::
    "transcription_segment list \<Rightarrow> payload \<Rightarrow> string option \<Rightarrow> aligned_segment list outcome"
  pyannote_pipeline :: "payload \<Rightarrow> diarization_segment list outcome"
  float_round :: "rat \<Rightarrow> rat"

text \<open>Float addition, subtraction and division.\<close>

definition float_add :: "env \<Rightarrow> rat \<Rightarrow> rat \<Rightarrow> rat" where
  "float_add e a b = float_round e (a + b)"

definition float_sub :: "env \<Rightarrow> rat \<Rightarrow> rat \<Rightarrow> rat" where
  "float_sub e a b = float_round e (a - b)"

definition float_div :: "env \<Rightarrow> rat \<Rightarrow> rat \<Rightarrow> rat" where
  "float_div e a b = float_round e (a / b)"

section \<open>State store\<close>

definition get_state_file_path :: "string \<Rightarrow> ProcessingStage \<Rightarrow> string" where
  "get_state_file_path fp st = fp @ ''_'' @ stage_value st @ ''.json''"

text \<open>
  What \<^verbatim>\<open>json.dump\<close> accepts. The transcription worker stores the
  \<^verbatim>\<open>TranscriptionResult\<close> objects that \<^verbatim>\<open>FasterWhisperTranscriber.transcribe\<close> returns, and
  \<^verbatim>\<open>json.dump\<close> raises \<^verbatim>\<open>TypeError\<close> on such an object: a list of transcriptions can be
  written only when it is empty. The other results are strings, numbers, lists and dicts.
\<close>

fun json_serializable :: "payload \<Rightarrow> bool" where
  "json_serializable (PTranscriptions items) = (items = [])"
| "json_serializable _ = True"

text \<open>
  \<^verbatim>\<open>save_state\<close> catches every exception of the write and returns normally. When
  \<^verbatim>\<open>json.dump\<close> fails, the file has been opened for writing and holds no valid JSON.
\<close>

definition save_state :: "env \<Rightarrow> ProcessingState \<Rightarrow> world \<Rightarrow> world" where
  "save_state e s w =
    (let state_file = get_state_file_path (file_path s) (stage s) in
     case disk_write e state_file of
       WriteOk \<Rightarrow>
         (if json_serializable (result s)
          then w\<lparr>files := (files w)(state_file \<mapsto> Json s)\<rparr>
          else w\<lparr>files := (files w)(state_file \<mapsto> Garbage)\<rparr>)
     | OpenFails \<Rightarrow> w
     | DumpFails \<Rightarrow> w\<lparr>files := (files w)(state_file \<mapsto> Garbage)\<rparr>)"

definition load_state :: "world \<Rightarrow> string \<Rightarrow> ProcessingStage \<Rightarrow> ProcessingState option" where
  "load_state w fp st =
    (case files w (get_state_file_path fp st) of
       None \<Rightarrow> None
     | Some Garbage \<Rightarrow> None
     | Some (Json s) \<Rightarrow> Some s)"

text \<open>The test \<^verbatim>\<open>state and state.status == "completed"\<close>.\<close>

definition is_completed :: "ProcessingState option \<Rightarrow> bool" where
  "is_completed so = (case so of None \<Rightarrow> False | Some s \<Rightarrow> status s = ''completed'')"

definition notify_progress :: "env \<Rightarrow> ProcessingState \<Rightarrow> world \<Rightarrow> world" where
  "notify_progress e s w =
    (if progress_callback_set e then w\<lparr>progress_events := progress_events w @ [s]\<rparr> else w)"

definition notify_completion :: "env \<Rightarrow> string \<Rightarrow> payload \<Rightarrow> world \<Rightarrow> world" where
  "notify_completion e fp r w =
    (if completion_callback_set e
     then w\<lparr>completion_events := completion_events w @ [(fp, r)]\<rparr> else w)"

definition called :: "collaborator \<Rightarrow> string \<Rightarrow> world \<Rightarrow> world" where
  "called c fp w = w\<lparr>collab_calls := collab_calls w @ [(c, fp)]\<rparr>"

definition new_state :: "string \<Rightarrow> ProcessingStage \<Rightarrow> string \<Rightarrow> rat \<Rightarrow> ProcessingState" where
  "new_state fp st stat now =
    \<lparr>file_path = fp, stage = st, status = stat, progress = 0, result = PNone,
     error = None, timestamp = now\<rparr>"

definition start_processing :: "env \<Rightarrow> string \<Rightarrow> world \<Rightarrow> world" where
  "start_processing e fp w =
    (let state = new_state fp EXTRACT_AUDIO ''pending'' (clock w);
         w1 = save_state e state w
     in w1\<lparr>extraction_queue := extraction_queue w1 @ [fp]\<rparr>)"

section \<open>Stage workers\<close>

text \<open>
  Each function below is the body of one worker loop for a token \<open>fp\<close> that was taken
  from the stage's queue. An exception that escapes the body is caught by the loop, which
  goes on with the next token: the world at the raise is the world after the body.
\<close>

definition put_vad :: "string \<Rightarrow> world \<Rightarrow> world" where
  "put_vad fp w = w\<lparr>vad_queue := vad_queue w @ [fp]\<rparr>"

definition put_transcription :: "string \<Rightarrow> world \<Rightarrow> world" where
  "put_transcription fp w = w\<lparr>transcription_queue := transcription_queue w @ [fp]\<rparr>"

definition put_alignment :: "string \<Rightarrow> world \<Rightarrow> world" where
  "put_alignment fp w = w\<lparr>alignment_queue := alignment_queue w @ [fp]\<rparr>"

definition put_diarization :: "string \<Rightarrow> world \<Rightarrow> world" where
  "put_diarization fp w = w\<lparr>diarization_queue := diarization_queue w @ [fp]\<rparr>"

definition put_merge :: "string \<Rightarrow> world \<Rightarrow> world" where
  "put_merge fp w = w\<lparr>merge_queue := merge_queue w @ [fp]\<rparr>"

definition put_export :: "string \<Rightarrow> world \<Rightarrow> world" where
  "put_export fp w = w\<lparr>export_queue := export_queue w @ [fp]\<rparr>"

text \<open>The two endings shared by the workers: the completed and the failed record.\<close>

definition mark_completed :: "env \<Rightarrow> ProcessingState \<Rightarrow> payload \<Rightarrow> world \<Rightarrow> world" where
  "mark_completed e s r w =
    (let s' = s\<lparr>status := ''completed'', progress := 1, result := r, timestamp := clock w\<rparr>
     in notify_progress e s' (save_state e s' w))"

definition mark_failed :: "env \<Rightarrow> ProcessingState \<Rightarrow> string \<Rightarrow> world \<Rightarrow> world" where
  "mark_failed e s msg w =
    (let s' = s\<lparr>status := ''failed'', error := Some msg, timestamp := clock w\<rparr>
     in notify_progress e s' (save_state e s' w))"

definition save_and_notify :: "env \<Rightarrow> ProcessingState \<Rightarrow> world \<Rightarrow> world" where
  "save_and_notify e s w = notify_progress e s (save_state e s w)"

definition extraction_body :: "env \<Rightarrow> string \<Rightarrow> world \<Rightarrow> world" where
  "extraction_body e fp w =
    (if is_completed (load_state w fp EXTRACT_AUDIO) then put_vad fp w
     else
       let state = new_state fp EXTRACT_AUDIO ''running'' (clock w);
           w1 = called Preprocessor fp (save_and_notify e state w)
       in case process_audio_pipeline e fp of
            Raises \<Rightarrow> w1
          | Returns None \<Rightarrow> mark_failed e state ''Audio extraction failed'' w1
          | Returns (Some processed_path) \<Rightarrow>
              (if processed_path = []
               then mark_failed e state ''Audio extraction failed'' w1
               else put_vad fp (mark_completed e state (PStr processed_path) w1)))"

definition vad_body :: "env \<Rightarrow> string \<Rightarrow> world \<Rightarrow> world" where
  "vad_body e fp w =
    (if is_completed (load_state w fp VAD_SEGMENTATION) then put_transcription fp w
     else
       case load_state w fp EXTRACT_AUDIO of
         None \<Rightarrow> w
       | Some extract_state \<Rightarrow>
           (if status extract_state = ''completed'' then
              let audio_path = result extract_state;
                  state = new_state fp VAD_SEGMENTATION ''running'' (clock w);
                  w1 = called Vad fp (save_and_notify e state w)
              in case segment_audio e audio_path of
                   Raises \<Rightarrow> w1
                 | Returns None \<Rightarrow> mark_failed e state ''VAD segmentation failed'' w1
                 | Returns (Some segments) \<Rightarrow>
                     put_transcription fp (mark_completed e state (PStrList segments) w1)
            else w))"

text \<open>
  The loop of the transcription worker over the segment paths: \<open>i\<close> is the index,
  \<open>total_segments\<close> the number of segments, \<open>acc\<close> the transcriptions so far. \<open>Inl\<close> is the world
  at an exception of the transcriber.
\<close>

fun transcribe_loop ::
  "env \<Rightarrow> string \<Rightarrow> ProcessingState \<Rightarrow> nat \<Rightarrow> nat \<Rightarrow> string list \<Rightarrow>
   transcription_item list \<Rightarrow> world \<Rightarrow> world + (transcription_item list \<times> world)" where
  "transcribe_loop e fp state i total_segments [] acc w = Inr (acc, w)"
| "transcribe_loop e fp state i total_segments (sp # rest) acc w =
    (let state' = state\<lparr>progress := float_div e (of_nat i) (of_nat total_segments)\<rparr>;
         w1 = called Transcriber fp (save_and_notify e state' w)
     in case transcribe e sp (language_setting e) of
          Raises \<Rightarrow> Inl w1
        | Returns None \<Rightarrow> transcribe_loop e fp state (Suc i) total_segments rest acc w1
        | Returns (Some r) \<Rightarrow>
            transcribe_loop e fp state (Suc i) total_segments rest
              (acc @ [\<lparr>segment_path = sp, item_result = r\<rparr>]) w1)"

definition transcription_body :: "env \<Rightarrow> string \<Rightarrow> world \<Rightarrow> world" where
  "transcription_body e fp w =
    (if is_completed (load_state w fp TRANSCRIPTION) then put_alignment fp w
     else
       case load_state w fp VAD_SEGMENTATION of
         None \<Rightarrow> w
       | Some vad_state \<Rightarrow>
           (if status vad_state = ''completed'' then
              let state = new_state fp TRANSCRIPTION ''running'' (clock w);
                  w1 = save_and_notify e state w
              in case result vad_state of
                   PStrList segment_paths \<Rightarrow>
                     (case transcribe_loop e fp state 0 (length segment_paths)
                             segment_paths [] w1 of
                        Inl w2 \<Rightarrow> w2
                      | Inr (transcriptions, w2) \<Rightarrow>
                          put_alignment fp
                            (mark_completed e state (PTranscriptions transcriptions) w2))
                 | _ \<Rightarrow> w1
            else w))"

text \<open>
  The alignment worker flattens the transcriptions: all segments in order, and the
  language of the first item whose language is set.
\<close>

fun prepare_alignment ::
  "transcription_item list \<Rightarrow> transcription_segment list \<Rightarrow> string option \<Rightarrow>
   transcription_segment list \<times> string option" where
  "prepare_alignment [] all_segments language = (all_segments, language)"
| "prepare_alignment (item # items) all_segments language =
    prepare_alignment items (all_segments @ tr_segments (item_result item))
      (case language of
         None \<Rightarrow> Some (tr_language (item_result item))
       | Some l \<Rightarrow> if l = [] then Some (tr_language (item_result item)) else Some l)"

text \<open>\<^verbatim>\<open>WhisperXAligner.align_words\<close>: any exception of the library becomes \<^verbatim>\<open>None\<close>.\<close>

definition align_words ::
  "env \<Rightarrow> transcription_segment list \<Rightarrow> payload \<Rightarrow> string option \<Rightarrow>
   aligned_segment list option" where
  "align_words e segments audio_path language =
    (case whisperx_align e segments audio_path language of
       Raises \<Rightarrow> None
     | Returns r \<Rightarrow> Some r)"

definition alignment_body :: "env \<Rightarrow> string \<Rightarrow> world \<Rightarrow> world" where
  "alignment_body e fp w =
    (if is_completed (load_state w fp ALIGNMENT) then put_diarization fp w
     else
       case load_state w fp TRANSCRIPTION of
         None \<Rightarrow> w
       | Some transcription_state \<Rightarrow>
           (case load_state w fp EXTRACT_AUDIO of
              None \<Rightarrow> w
            | Some audio_state \<Rightarrow>
                (if status transcription_state = ''completed'' then
                   let state = new_state fp ALIGNMENT ''running'' (clock w);
                       w1 = save_and_notify e state w
                   in case result transcription_state of
                        PTranscriptions items \<Rightarrow>
                          (case prepare_alignment items [] None of
                             (all_segments, language) \<Rightarrow>
                               (let w2 = called Aligner fp w1 in
                                case align_words e all_segments (result audio_state) language of
                                  None \<Rightarrow> mark_failed e state ''Word alignment failed'' w2
                                | Some aligned_result \<Rightarrow>
                                    (if aligned_result = []
                                     then mark_failed e state ''Word alignment failed'' w2
                                     else put_diarization fp
                                            (mark_completed e state (PSegments aligned_result) w2))))
                      | _ \<Rightarrow> w1
                 else w)))"

text \<open>\<^verbatim>\<open>PyannoteDiarizer.diarize\<close>: any exception of the library becomes \<^verbatim>\<open>None\<close>.\<close>

definition diarize :: "env \<Rightarrow> payload \<Rightarrow> diarization_segment list option" where
  "diarize e audio_path =
    (case pyannote_pipeline e audio_path of
       Raises \<Rightarrow> None
     | Returns r \<Rightarrow> Some r)"

definition diarization_body :: "env \<Rightarrow> string \<Rightarrow> world \<Rightarrow> world" where
  "diarization_body e fp w =
    (if diarization_setting e then
       (if is_completed (load_state w fp DIARIZATION) then put_merge fp w
        else
          case load_state w fp EXTRACT_AUDIO of
            None \<Rightarrow> w
          | Some audio_state \<Rightarrow>
              (if status audio_state = ''completed'' then
                 let state = new_state fp DIARIZATION ''running'' (clock w);
                     w1 = called Diarizer fp (save_and_notify e state w)
                 in case diarize e (result audio_state) of
                      None \<Rightarrow> mark_failed e state ''Speaker diarization failed'' w1
                    | Some diarization_result \<Rightarrow>
                        (if diarization_result = []
                         then mark_failed e state ''Speaker diarization failed'' w1
                         else put_merge fp
                                (mark_completed e state (PDiarization diarization_result) w1))
               else w))
     else put_merge fp w)"

subsection \<open>Merge\<close>

text \<open>
  A Python dict keeps its keys in insertion order and a store to a key that is present
  replaces the value where the key stands: an association list with this update.
\<close>

fun dict_set :: "('k \<times> 'v) list \<Rightarrow> 'k \<Rightarrow> 'v \<Rightarrow> ('k \<times> 'v) list" where
  "dict_set [] k v = [(k, v)]"
| "dict_set ((k', v') # d) k v =
    (if k' = k then (k', v) # d else (k', v') # dict_set d k v)"

definition speaker_timeline ::
  "diarization_segment list \<Rightarrow> ((rat \<times> rat) \<times> string) list" where
  "speaker_timeline diarization_segments =
    foldl (\<lambda>d seg. dict_set d (d_start seg, d_end seg) (d_speaker seg)) [] diarization_segments"

text \<open>The inner loop over \<^verbatim>\<open>speaker_timeline.items()\<close>, with its \<^verbatim>\<open>break\<close>.\<close>

fun find_speaker :: "((rat \<times> rat) \<times> string) list \<Rightarrow> rat \<Rightarrow> string \<Rightarrow> string" where
  "find_speaker [] word_mid_point assigned_speaker = assigned_speaker"
| "find_speaker (((start, stop), speaker) # items) word_mid_point assigned_speaker =
    (if start \<le> word_mid_point \<and> word_mid_point \<le> stop then speaker
     else find_speaker items word_mid_point assigned_speaker)"

text \<open>\<^verbatim>\<open>word['start'] + (word['end'] - word['start']) / 2\<close>, in floats.\<close>

definition word_mid_point :: "env \<Rightarrow> word \<Rightarrow> rat" where
  "word_mid_point e wd =
    float_add e (w_start wd) (float_div e (float_sub e (w_end wd) (w_start wd)) 2)"

definition assign_word :: "env \<Rightarrow> ((rat \<times> rat) \<times> string) list \<Rightarrow> word \<Rightarrow> word" where
  "assign_word e timeline wd =
    wd\<lparr>w_speaker := Some (find_speaker timeline (word_mid_point e wd) ''UNKNOWN'')\<rparr>"

definition assign_segment ::
  "env \<Rightarrow> ((rat \<times> rat) \<times> string) list \<Rightarrow> aligned_segment \<Rightarrow> aligned_segment" where
  "assign_segment e timeline segment =
    (case seg_words segment of
       None \<Rightarrow> segment
     | Some ws \<Rightarrow> segment\<lparr>seg_words := Some (map (assign_word e timeline) ws)\<rparr>)"

definition merge_body :: "env \<Rightarrow> string \<Rightarrow> world \<Rightarrow> world" where
  "merge_body e fp w =
    (if is_completed (load_state w fp MERGE_SEGMENTS) then put_export fp w
     else
       case load_state w fp ALIGNMENT of
         None \<Rightarrow> w
       | Some alignment_state \<Rightarrow>
           (if status alignment_state = ''completed'' then
              let state = new_state fp MERGE_SEGMENTS ''running'' (clock w);
                  w1 = save_and_notify e state w;
                  diarization_segments =
                    (case load_state w fp DIARIZATION of
                       None \<Rightarrow> PDiarization []
                     | Some diarization_state \<Rightarrow> result diarization_state)
              in case diarization_segments of
                   PDiarization ds \<Rightarrow>
                     (case result alignment_state of
                        PSegments aligned_segments \<Rightarrow>
                          put_export fp
                            (mark_completed e state
                               (PSegments (map (assign_segment e (speaker_timeline ds))
                                             aligned_segments)) w1)
                      | _ \<Rightarrow> w1)
                 | _ \<Rightarrow> w1
            else w))"

definition export_body :: "env \<Rightarrow> string \<Rightarrow> world \<Rightarrow> world" where
  "export_body e fp w =
    (case load_state w fp MERGE_SEGMENTS of
       None \<Rightarrow> w
     | Some merged_state \<Rightarrow>
         (if status merged_state = ''completed'' then
            let state = \<lparr>file_path = fp, stage = EXPORT, status = ''completed'', progress = 1,
                         result = result merged_state, error = None, timestamp = clock w\<rparr>
            in notify_completion e fp (result state)
                 (save_and_notify e state w)
          else w))"

section \<open>Worker loops and the pool\<close>

text \<open>
  One turn of a worker loop: take the token at the head of the stage's queue and run the
  body. On an empty queue the bounded wait times out and the loop retries.
\<close>

definition extraction_worker :: "env \<Rightarrow> world \<Rightarrow> world" where
  "extraction_worker e w =
    (case extraction_queue w of
       [] \<Rightarrow> w
     | fp # rest \<Rightarrow> extraction_body e fp (w\<lparr>extraction_queue := rest\<rparr>))"

definition vad_worker :: "env \<Rightarrow> world \<Rightarrow> world" where
  "vad_worker e w =
    (case vad_queue w of
       [] \<Rightarrow> w
     | fp # rest \<Rightarrow> vad_body e fp (w\<lparr>vad_queue := rest\<rparr>))"

definition transcription_worker :: "env \<Rightarrow> world \<Rightarrow> world" where
  "transcription_worker e w =
    (case transcription_queue w of
       [] \<Rightarrow> w
     | fp # rest \<Rightarrow> transcription_body e fp (w\<lparr>transcription_queue := rest\<rparr>))"

definition alignment_worker :: "env \<Rightarrow> world \<Rightarrow> world" where
  "alignment_worker e w =
    (case alignment_queue w of
       [] \<Rightarrow> w
     | fp # rest \<Rightarrow> alignment_body e fp (w\<lparr>alignment_queue := rest\<rparr>))"

definition diarization_worker :: "env \<Rightarrow> world \<Rightarrow> world" where
  "diarization_worker e w =
    (case diarization_queue w of
       [] \<Rightarrow> w
     | fp # rest \<Rightarrow> diarization_body e fp (w\<lparr>diarization_queue := rest\<rparr>))"

definition merge_worker :: "env \<Rightarrow> world \<Rightarrow> world" where
  "merge_worker e w =
    (case merge_queue w of
       [] \<Rightarrow> w
     | fp # rest \<Rightarrow> merge_body e fp (w\<lparr>merge_queue := rest\<rparr>))"

definition export_worker :: "env \<Rightarrow> world \<Rightarrow> world" where
  "export_worker e w =
    (case export_queue w of
       [] \<Rightarrow> w
     | fp # rest \<Rightarrow> export_body e fp (w\<lparr>export_queue := rest\<rparr>))"

text \<open>
  One turn of every worker in stage order. With a single token in the pipeline this is
  the only schedule: at any time at most one queue is non-empty.
\<close>

definition pipeline_pass :: "env \<Rightarrow> world \<Rightarrow> world" where
  "pipeline_pass e w =
    export_worker e (merge_worker e (diarization_worker e (alignment_worker e
      (transcription_worker e (vad_worker e (extraction_worker e w))))))"

text \<open>
  The constructor's choice of devices,
  \<^verbatim>\<open>gpu_devices or ["cuda:0"] if self._has_cuda() else ["cpu"]\<close>,
  which Python reads as \<^verbatim>\<open>(gpu_devices or ["cuda:0"]) if ... else ["cpu"]\<close>.
\<close>

definition init_gpu_devices :: "bool \<Rightarrow> string list option \<Rightarrow> string list" where
  "init_gpu_devices has_cuda gpu_devices =
    (if has_cuda then
       (case gpu_devices of
          None \<Rightarrow> [''cuda:0'']
        | Some ds \<Rightarrow> if ds = [] then [''cuda:0''] else ds)
     else [''cpu''])"

text \<open>A worker thread; a transcription worker carries the device of its transcriber.\<close>

datatype worker =
    ExtractionWorker
  | VadWorker
  | AlignmentWorker
  | DiarizationWorker
  | MergeWorker
  | ExportWorker
  | TranscriptionWorker string

text \<open>The first lines of \<^verbatim>\<open>_transcription_worker\<close>: \<^verbatim>\<open>device = self.gpu_devices[0]\<close>.\<close>

definition transcription_worker_device :: "string list \<Rightarrow> string" where
  "transcription_worker_device gpu_devices = hd gpu_devices"

definition start_workers :: "int \<Rightarrow> string list \<Rightarrow> worker list" where
  "start_workers max_workers gpu_devices =
    replicate (nat (min 2 max_workers)) ExtractionWorker @
    replicate (nat (min 2 max_workers)) VadWorker @
    [AlignmentWorker, DiarizationWorker, MergeWorker, ExportWorker] @
    map (\<lambda>_. TranscriptionWorker (transcription_worker_device gpu_devices)) gpu_devices"

fun worker_device :: "worker \<Rightarrow> string option" where
  "worker_device (TranscriptionWorker d) = Some d"
| "worker_device _ = None"

definition transcription_devices :: "worker list \<Rightarrow> string list" where
  "transcription_devices ws = List.map_filter worker_device ws"

section \<open>Synchronous processing\<close>

definition max_wait_time :: rat where
  "max_wait_time = 300"

text \<open>
  The polling loop of \<^verbatim>\<open>process_file\<close>. Workers run concurrently, so each turn of the
  loop sees the world as it then is: the list holds these observations, one per evaluation
  of the loop condition. \<open>None\<close>: the loop has not returned within the observations given.
  A returned \<open>PNone\<close> is Python's \<^verbatim>\<open>None\<close>.
\<close>

fun poll_export :: "env \<Rightarrow> string \<Rightarrow> rat \<Rightarrow> world list \<Rightarrow> payload option" where
  "poll_export e fp start_time [] = None"
| "poll_export e fp start_time (w # ws) =
    (if float_sub e (clock w) start_time < max_wait_time then
       (case load_state w fp EXPORT of
          None \<Rightarrow> poll_export e fp start_time ws
        | Some state \<Rightarrow>
            if status state = ''completed'' then Some (result state)
            else poll_export e fp start_time ws)
     else Some PNone)"

text \<open>
  \<^verbatim>\<open>process_file\<close>: submit, read the start time, poll. The first observation is the
  world when \<^verbatim>\<open>start_time\<close> is read.
\<close>

definition process_file :: "env \<Rightarrow> string \<Rightarrow> world \<Rightarrow> world list \<Rightarrow> world \<times> payload option" where
  "process_file e fp w obs =
    (let w1 = start_processing e fp w in
     case obs of
       [] \<Rightarrow> (w1, None)
     | w2 # rest \<Rightarrow> (w1, poll_export e fp (clock w2) rest))"

section \<open>The convenience call as the specification words it\<close>

text \<open>
  \<^verbatim>\<open>runToCompletion(identity, timeout)\<close> of the specification: poll the Export record
  until it is completed or the caller's timeout has elapsed. It differs from
  \<open>poll_export\<close> in the bound only, which is an argument here.
\<close>

fun runToCompletion_spec ::
  "env \<Rightarrow> rat \<Rightarrow> string \<Rightarrow> rat \<Rightarrow> world list \<Rightarrow> payload option" where
  "runToCompletion_spec e timeout fp start_time [] = None"
| "runToCompletion_spec e timeout fp start_time (w # ws) =
    (if float_sub e (clock w) start_time < timeout then
       (case load_state w fp EXPORT of
          None \<Rightarrow> runToCompletion_spec e timeout fp start_time ws
        | Some state \<Rightarrow>
            if status state = ''completed'' then Some (result state)
            else runToCompletion_spec e timeout fp start_time ws)
     else Some PNone)"

section \<open>Concrete inputs\<close>

text \<open>A word spanning \<open>[1, 2]\<close>, so with midpoint \<open>3/2\<close>.\<close>

definition demo_word :: word where
  "demo_word = \<lparr>w_word = ''hi'', w_start = 1, w_end = 2, w_speaker = None\<rparr>"

definition demo_segments :: "aligned_segment list" where
  "demo_segments =
    [\<lparr>seg_text = ''hi'', seg_start = 1, seg_end = 2, seg_words = Some [demo_word]\<rparr>]"

definition demo_intervals :: "diarization_segment list" where
  "demo_intervals =
    [\<lparr>d_start = 0, d_end = 3 / 2, d_speaker = ''A''\<rparr>,
     \<lparr>d_start = 3 / 2, d_end = 3, d_speaker = ''B''\<rparr>]"

text \<open>
  An environment in which every write succeeds and every collaborator delivers. The floats
  of the inputs below are halves of small integers, on which no operation rounds.
\<close>

definition demo_env :: env where
  "demo_env =
    \<lparr>diarization_setting = True, language_setting = None,
     progress_callback_set = True, completion_callback_set = True,
     disk_write = (\<lambda>_. WriteOk),
     process_audio_pipeline = (\<lambda>_. Returns (Some ''a.wav'')),
     segment_audio = (\<lambda>_. Returns (Some [''seg0.wav''])),
     transcribe =
       (\<lambda>_ _. Returns (Some \<lparr>tr_segments = [\<lparr>ts_text = ''hi'', ts_start = 1, ts_end = 2\<rparr>],
                              tr_language = ''en''\<rparr>)),
     whisperx_align =
       (\<lambda>segs _ _. Returns (map (\<lambda>s. \<lparr>seg_text = ts_text s, seg_start = ts_start s,
                                       seg_end = ts_end s, seg_words = Some [demo_word]\<rparr>) segs)),
     pyannote_pipeline = (\<lambda>_. Returns demo_intervals),
     float_round = (\<lambda>x. x)\<rparr>"

definition empty_world :: world where
  "empty_world =
    \<lparr>files = Map.empty, extraction_queue = [], vad_queue = [], transcription_queue = [],
     alignment_queue = [], diarization_queue = [], merge_queue = [], export_queue = [],
     clock = 0, progress_events = [], completion_events = [], collab_calls = []\<rparr>"

definition completed_state :: "string \<Rightarrow> ProcessingStage \<Rightarrow> payload \<Rightarrow> ProcessingState" where
  "completed_state fp st r =
    \<lparr>file_path = fp, stage = st, status = ''completed'', progress = 1, result = r,
     error = None, timestamp = 0\<rparr>"

text \<open>The world whose state files are the given states, written in order.\<close>

definition stored :: "ProcessingState list \<Rightarrow> world" where
  "stored ss = foldl (\<lambda>w s. save_state demo_env s w) empty_world ss"

text \<open>A file whose seven stages are all stored as completed.\<close>

definition all_completed :: world where
  "all_completed = stored
    [completed_state ''a.mp4'' EXTRACT_AUDIO (PStr ''a.wav''),
     completed_state ''a.mp4'' VAD_SEGMENTATION (PStrList [''seg0.wav'']),
     completed_state ''a.mp4'' TRANSCRIPTION (PTranscriptions []),
     completed_state ''a.mp4'' ALIGNMENT (PSegments demo_segments),
     completed_state ''a.mp4'' DIARIZATION (PDiarization demo_intervals),
     completed_state ''a.mp4'' MERGE_SEGMENTS (PSegments demo_segments),
     completed_state ''a.mp4'' EXPORT (PSegments demo_segments)]"

text \<open>A file that is extracted and in which the segmentation found no speech.\<close>

definition no_speech :: world where
  "no_speech = (stored
    [completed_state ''a.mp4'' EXTRACT_AUDIO (PStr ''a.wav''),
     completed_state ''a.mp4'' VAD_SEGMENTATION (PStrList [])])
    \<lparr>transcription_queue := [''a.mp4'']\<rparr>"

text \<open>A file that is aligned, with or without stored diarization intervals.\<close>

definition aligned_only :: world where
  "aligned_only = stored
    [completed_state ''a.mp4'' EXTRACT_AUDIO (PStr ''a.wav''),
     completed_state ''a.mp4'' ALIGNMENT (PSegments demo_segments)]"

definition aligned_and_diarized :: world where
  "aligned_and_diarized = stored
    [completed_state ''a.mp4'' EXTRACT_AUDIO (PStr ''a.wav''),
     completed_state ''a.mp4'' ALIGNMENT (PSegments demo_segments),
     completed_state ''a.mp4'' DIARIZATION (PDiarization demo_intervals)]"

text \<open>A file that is extracted; extracted and segmented; extracted and transcribed to nothing.\<close>

definition extracted :: world where
  "extracted = stored [completed_state ''a.mp4'' EXTRACT_AUDIO (PStr ''a.wav'')]"

definition segmented :: world where
  "segmented = stored
    [completed_state ''a.mp4'' EXTRACT_AUDIO (PStr ''a.wav''),
     completed_state ''a.mp4'' VAD_SEGMENTATION (PStrList [''seg0.wav''])]"

definition transcribed :: world where
  "transcribed = stored
    [completed_state ''a.mp4'' EXTRACT_AUDIO (PStr ''a.wav''),
     completed_state ''a.mp4'' TRANSCRIPTION (PTranscriptions [])]"

text \<open>
  A file that is extracted and whose Transcribe record, written by another program as
  plain JSON, holds one transcription.
\<close>

definition demo_transcription :: transcription_item where
  "demo_transcription =
    \<lparr>segment_path = ''seg0.wav'',
     item_result = \<lparr>tr_segments = [\<lparr>ts_text = ''hi'', ts_start = 1, ts_end = 2\<rparr>],
                    tr_language = ''en''\<rparr>\<rparr>"

definition transcribed_speech :: world where
  "transcribed_speech = extracted
    \<lparr>files := (files extracted)
       (get_state_file_path ''a.mp4'' TRANSCRIPTION \<mapsto>
          Json (completed_state ''a.mp4'' TRANSCRIPTION (PTranscriptions [demo_transcription])))\<rparr>"

text \<open>Intervals of which two share the span \<open>[1, 2]\<close>.\<close>

definition overlapping_intervals :: "diarization_segment list" where
  "overlapping_intervals =
    [\<lparr>d_start = 0, d_end = 10, d_speaker = ''X''\<rparr>,
     \<lparr>d_start = 1, d_end = 2, d_speaker = ''A''\<rparr>,
     \<lparr>d_start = 1, d_end = 2, d_speaker = ''B''\<rparr>]"

definition duplicate_intervals :: "diarization_segment list" where
  "duplicate_intervals =
    [\<lparr>d_start = 1, d_end = 2, d_speaker = ''A''\<rparr>,
     \<lparr>d_start = 5, d_end = 6, d_speaker = ''C''\<rparr>,
     \<lparr>d_start = 1, d_end = 2, d_speaker = ''B''\<rparr>]"

section \<open>Properties of the worlds\<close>

text \<open>
  A failure is on record for a file and a stage: the stored state is failed and has an
  error description, and when a progress callback is set its last call was with that state.
\<close>

definition failure_recorded :: "env \<Rightarrow> string \<Rightarrow> ProcessingStage \<Rightarrow> world \<Rightarrow> bool" where
  "failure_recorded e fp st w' =
    (case load_state w' fp st of
       None \<Rightarrow> False
     | Some s \<Rightarrow>
         status s = ''failed'' \<and> error s \<noteq> None \<and>
         (if progress_callback_set e
          then progress_events w' \<noteq> [] \<and> last (progress_events w') = s
          else True))"

section \<open>Auxiliary facts\<close>

lemma state_file_inj [simp]:
  "get_state_file_path fp s = get_state_file_path fp s' \<longleftrightarrow> s = s'"
  by (cases s; cases s'; simp add: get_state_file_path_def)

lemmas body_defs = extraction_body_def vad_body_def transcription_body_def alignment_body_def
  diarization_body_def merge_body_def export_body_def
lemmas worker_defs = extraction_worker_def vad_worker_def transcription_worker_def
  alignment_worker_def diarization_worker_def merge_worker_def export_worker_def
  pipeline_pass_def
lemmas store_defs = save_state_def load_state_def is_completed_def new_state_def
  save_and_notify_def notify_progress_def notify_completion_def mark_failed_def
  mark_completed_def called_def start_processing_def
lemmas put_defs = put_vad_def put_transcription_def put_alignment_def put_diarization_def
  put_merge_def put_export_def
lemmas demo_defs = demo_env_def empty_world_def completed_state_def stored_def
  demo_segments_def demo_word_def demo_intervals_def get_state_file_path_def
  all_completed_def no_speech_def aligned_only_def aligned_and_diarized_def
  extracted_def segmented_def transcribed_def transcribed_speech_def
  demo_transcription_def
lemmas float_defs = float_add_def float_sub_def float_div_def word_mid_point_def

lemma all_completed_loads: "is_completed (load_state all_completed ''a.mp4'' st)"
  by (cases st; simp add: store_defs demo_defs)

lemma find_speaker_find:
  "find_speaker tml m dflt =
    (case find (\<lambda>((start, stop), speaker). start \<le> m \<and> m \<le> stop) tml of
       None \<Rightarrow> dflt
     | Some (k, speaker) \<Rightarrow> speaker)"
  by (induction tml m dflt rule: find_speaker.induct) auto

lemma speaker_timeline_snoc:
  "speaker_timeline (ds @ [d]) =
    dict_set (speaker_timeline ds) (d_start d, d_end d) (d_speaker d)"
  by (simp add: speaker_timeline_def)

lemma dict_set_keys:
  "map fst (dict_set d k v) = (if k \<in> fst ` set d then map fst d else map fst d @ [k])"
  by (induction d) (fastforce simp: image_iff)+

lemma dict_set_fresh: "k \<notin> fst ` set d \<Longrightarrow> dict_set d k v = d @ [(k, v)]"
  by (induction d) auto

lemma map_of_dict_set: "map_of (dict_set d k v) = (map_of d)(k \<mapsto> v)"
  by (induction d) (auto simp: fun_eq_iff)

lemma speaker_timeline_keys: "fst ` set (speaker_timeline ds) = (\<lambda>d. (d_start d, d_end d)) ` set ds"
proof (induction ds rule: rev_induct)
  case Nil
  then show ?case by (simp add: speaker_timeline_def)
next
  case (snoc d ds)
  have "fst ` set (dict_set t k v) = insert k (fst ` set t)" for t :: "((rat \<times> rat) \<times> string) list" and k v
    using dict_set_keys [of t k v] by (metis (no_types, lifting) insert_absorb list.set_map set_append list.simps(15) Un_insert_right sup_bot.right_neutral empty_set)
  then show ?case using snoc by (simp add: speaker_timeline_snoc)
qed

lemma speaker_timeline_distinct:
  "distinct (map (\<lambda>d. (d_start d, d_end d)) ds) \<Longrightarrow>
   speaker_timeline ds = map (\<lambda>d. ((d_start d, d_end d), d_speaker d)) ds"
proof (induction ds rule: rev_induct)
  case Nil
  then show ?case by (simp add: speaker_timeline_def)
next
  case (snoc d ds)
  then have "(d_start d, d_end d) \<notin> fst ` set (speaker_timeline ds)"
    by (auto simp: image_iff)
  then show ?case using snoc by (simp add: speaker_timeline_snoc dict_set_fresh)
qed

lemma assign_segment_words:
  "seg_words seg = Some ws \<Longrightarrow>
   seg_words (assign_segment e tml seg) = Some (map (assign_word e tml) ws)"
  by (simp add: assign_segment_def)

lemma map_of_speaker_timeline:
  "map_of (speaker_timeline ds) =
   map_of (rev (map (\<lambda>d. ((d_start d, d_end d), d_speaker d)) ds))"
  by (induction ds rule: rev_induct)
     (simp_all add: speaker_timeline_snoc map_of_dict_set, simp add: speaker_timeline_def)

lemma speaker_timeline_keys_distinct: "distinct (map fst (speaker_timeline ds))"
  by (induction ds rule: rev_induct)
     (simp_all add: speaker_timeline_snoc dict_set_keys, simp add: speaker_timeline_def)

lemma speaker_timeline_last_label:
  assumes "ds = front @ d2 # post"
    and "\<forall>d\<in>set post. (d_start d, d_end d) \<noteq> (d_start d2, d_end d2)"
  shows "map_of (speaker_timeline ds) (d_start d2, d_end d2) = Some (d_speaker d2)"
proof -
  let ?conv = "\<lambda>d. ((d_start d, d_end d), d_speaker d)"
  have "map_of (rev (map ?conv post)) (d_start d2, d_end d2) = None"
    using assms(2) by (force simp: map_of_eq_None_iff image_iff)
  then show ?thesis
    by (simp add: map_of_speaker_timeline assms(1) map_add_def)
qed

lemma keys_before:
  "set (takeWhile (\<lambda>k. k \<noteq> k0) (map fst (speaker_timeline ds))) \<subseteq>
   (\<lambda>d. (d_start d, d_end d)) ` set (takeWhile (\<lambda>d. (d_start d, d_end d) \<noteq> k0) ds)"
proof (induction ds rule: rev_induct)
  case Nil
  then show ?case by (simp add: speaker_timeline_def)
next
  case (snoc d ds)
  let ?t = "speaker_timeline ds"
  let ?k = "(d_start d, d_end d)"
  let ?P = "\<lambda>d. (d_start d, d_end d) \<noteq> k0"
  have mono: "set (takeWhile ?P ds) \<subseteq> set (takeWhile ?P (ds @ [d]))"
    by (auto simp: takeWhile_append dest: set_takeWhileD)
  show ?case
  proof (cases "?k \<in> fst ` set ?t")
    case True
    then have "map fst (speaker_timeline (ds @ [d])) = map fst ?t"
      by (simp add: speaker_timeline_snoc dict_set_keys)
    then show ?thesis using snoc.IH mono by auto
  next
    case False
    then have keys: "map fst (speaker_timeline (ds @ [d])) = map fst ?t @ [?k]"
      by (simp add: speaker_timeline_snoc dict_set_keys)
    show ?thesis
    proof (cases "\<forall>k\<in>set (map fst ?t). k \<noteq> k0")
      case True
      then have all: "\<forall>x\<in>set ds. ?P x"
        using speaker_timeline_keys [of ds] by (auto simp: image_iff) 
      show ?thesis
        using True all speaker_timeline_keys [of ds]
        by (auto simp: keys takeWhile_append)
    next
      case False
      then obtain k where "k \<in> set (map fst ?t)" "\<not> k \<noteq> k0"
        by blast
      then have "takeWhile (\<lambda>k. k \<noteq> k0) (map fst ?t @ [?k]) =
          takeWhile (\<lambda>k. k \<noteq> k0) (map fst ?t)"
        by (rule takeWhile_append1)
      then show ?thesis using snoc.IH mono by (auto simp: keys)
    qed
  qed
qed

lemma find_speaker_at_key:
  "k0 \<in> fst ` set tml \<Longrightarrow> fst k0 \<le> m \<Longrightarrow> m \<le> snd k0 \<Longrightarrow>
   \<forall>k\<in>set (takeWhile (\<lambda>k. k \<noteq> k0) (map fst tml)). \<not> (fst k \<le> m \<and> m \<le> snd k) \<Longrightarrow>
   Some (find_speaker tml m dflt) = map_of tml k0"
proof (induction tml m dflt rule: find_speaker.induct)
  case (1 m dflt)
  then show ?case by simp
next
  case (2 start stop speaker items m dflt)
  then show ?case by (cases "(start, stop) = k0") auto
qed

lemma mark_failed_recorded:
  assumes "file_path s = fp" "stage s = st" "result s = PNone"
    and "disk_write e (get_state_file_path fp st) = WriteOk"
  shows "failure_recorded e fp st (mark_failed e s msg w)"
  using assms
  by (simp add: failure_recorded_def mark_failed_def load_state_def save_state_def
      notify_progress_def Let_def)




lemma new_state_fields:
  "file_path (new_state fp st stat now) = fp" "stage (new_state fp st stat now) = st"
  "result (new_state fp st stat now) = PNone"
  by (simp_all add: new_state_def)





lemma merge_body_stored:
  assumes "load_state w fp ALIGNMENT = Some alignment_state"
    and "status alignment_state = ''completed''"
    and "result alignment_state = PSegments segs"
    and "\<not> is_completed (load_state w fp MERGE_SEGMENTS)"
    and "case load_state w fp DIARIZATION of
           None \<Rightarrow> ds = []
         | Some diarization_state \<Rightarrow> result diarization_state = PDiarization ds"
    and "disk_write e (get_state_file_path fp MERGE_SEGMENTS) = WriteOk"
  shows "\<exists>merged. load_state (merge_body e fp w) fp MERGE_SEGMENTS = Some merged \<and>
      status merged = ''completed'' \<and>
      result merged = PSegments (map (assign_segment e (speaker_timeline ds)) segs)"
proof -
  let ?segs' = "map (assign_segment e (speaker_timeline ds)) segs"
  let ?state = "new_state fp MERGE_SEGMENTS ''running'' (clock w)"
  let ?w1 = "save_and_notify e ?state w"
  have body: "merge_body e fp w =
      put_export fp (mark_completed e ?state (PSegments ?segs') ?w1)"
    using assms(1-5) by (auto simp: merge_body_def Let_def split: option.splits)
  show ?thesis
    unfolding body using assms(6)
    by (simp add: put_export_def mark_completed_def Let_def load_state_def save_state_def
        notify_progress_def new_state_def)
qed

lemma no_intervals_unknown:
  "seg \<in> set (map (assign_segment e (speaker_timeline [])) segs) \<Longrightarrow> seg_words seg = Some ws \<Longrightarrow>
   wd \<in> set ws \<Longrightarrow> w_speaker wd = Some ''UNKNOWN''"
  by (auto simp: assign_segment_def assign_word_def speaker_timeline_def split: option.splits)

lemma load_save_and_notify:
  "load_state (save_and_notify e s w) fp st =
    (if get_state_file_path (file_path s) (stage s) = get_state_file_path fp st
     then (case disk_write e (get_state_file_path fp st) of
             WriteOk \<Rightarrow> if json_serializable (result s) then Some s else None
           | OpenFails \<Rightarrow> load_state w fp st | DumpFails \<Rightarrow> None)
     else load_state w fp st)"
  by (simp add: save_and_notify_def notify_progress_def save_state_def load_state_def Let_def
      split: write_outcome.splits)

lemma load_called: "load_state (called c x w) fp st = load_state w fp st"
  by (simp add: called_def load_state_def)

lemma load_put_diarization: "load_state (put_diarization x w) fp st = load_state w fp st"
  by (simp add: put_diarization_def load_state_def)

lemma collab_calls_save_and_notify:
  "collab_calls (save_and_notify e s w) = collab_calls w"
  by (simp add: save_and_notify_def save_state_def notify_progress_def Let_def
      split: write_outcome.splits)

lemma collab_calls_mark:
  "collab_calls (mark_failed e s msg w) = collab_calls w"
  "collab_calls (mark_completed e s r w) = collab_calls w"
  by (simp_all add: mark_failed_def mark_completed_def save_state_def notify_progress_def Let_def
      split: write_outcome.splits)

lemma load_mark:
  "load_state (mark_failed e s msg w) fp st =
    (if get_state_file_path (file_path s) (stage s) = get_state_file_path fp st
     then (case disk_write e (get_state_file_path fp st) of
             WriteOk \<Rightarrow>
               if json_serializable (result s)
               then Some (s\<lparr>status := ''failed'', error := Some msg, timestamp := clock w\<rparr>)
               else None
           | OpenFails \<Rightarrow> load_state w fp st | DumpFails \<Rightarrow> None)
     else load_state w fp st)"
  "load_state (mark_completed e s r w) fp st =
    (if get_state_file_path (file_path s) (stage s) = get_state_file_path fp st
     then (case disk_write e (get_state_file_path fp st) of
             WriteOk \<Rightarrow>
               if json_serializable r
               then Some (s\<lparr>status := ''completed'', progress := 1, result := r,
                          timestamp := clock w\<rparr>)
               else None
           | OpenFails \<Rightarrow> load_state w fp st | DumpFails \<Rightarrow> None)
     else load_state w fp st)"
  by (simp_all add: mark_failed_def mark_completed_def notify_progress_def save_state_def
      load_state_def Let_def split: write_outcome.splits)

lemma alignment_completes_nonempty:
  assumes "\<not> is_completed (load_state w fp ALIGNMENT)"
    and "load_state (alignment_body e fp w) fp ALIGNMENT = Some s"
    and "status s = ''completed''"
  shows "result s \<noteq> PSegments []"
  using assms
  by (auto simp: alignment_body_def Let_def load_save_and_notify load_called load_mark
      load_put_diarization new_state_def is_completed_def
      split: option.splits if_splits payload.splits prod.splits write_outcome.splits)

lemma poll_export_prefix:
  "\<forall>y\<in>set pre. float_sub e (clock y) t0 < max_wait_time \<and>
      \<not> is_completed (load_state y fp EXPORT) \<Longrightarrow>
   poll_export e fp t0 (pre @ rest) = poll_export e fp t0 rest"
  by (induction pre) (auto simp: is_completed_def split: option.splits)

lemma poll_export_returned:
  assumes "poll_export e fp t0 obs = Some r"
  shows "\<exists>pre x post. obs = pre @ x # post \<and>
     (\<forall>y\<in>set pre. float_sub e (clock y) t0 < max_wait_time \<and>
         \<not> is_completed (load_state y fp EXPORT)) \<and>
     (if float_sub e (clock x) t0 < max_wait_time
      then is_completed (load_state x fp EXPORT) \<and>
           map_option result (load_state x fp EXPORT) = Some r
      else r = PNone)"
  using assms
proof (induction obs)
  case Nil
  then show ?case by simp
next
  case (Cons w ws)
  let ?live = "\<lambda>y. float_sub e (clock y) t0 < max_wait_time"
  let ?done = "\<lambda>y. is_completed (load_state y fp EXPORT)"
  let ?last = "\<lambda>x. if ?live x then ?done x \<and> map_option result (load_state x fp EXPORT) = Some r
                     else r = PNone"
  show ?case
  proof (cases "?live w \<and> \<not> ?done w")
    case True
    with Cons.prems have "poll_export e fp t0 ws = Some r"
      by (auto simp: is_completed_def split: option.splits)
    from Cons.IH [OF this] obtain pre x post where
      p: "ws = pre @ x # post" "\<forall>y\<in>set pre. ?live y \<and> \<not> ?done y" "?last x"
      by blast
    have "w # ws = (w # pre) @ x # post \<and> (\<forall>y\<in>set (w # pre). ?live y \<and> \<not> ?done y) \<and> ?last x"
      using p True by simp
    then show ?thesis by blast
  next
    case False
    with Cons.prems have "?last w"
      by (auto simp: is_completed_def split: option.splits if_splits)
    then have "w # ws = [] @ w # ws \<and> (\<forall>y\<in>set []. ?live y \<and> \<not> ?done y) \<and> ?last w"
      by simp
    then show ?thesis by blast
  qed
qed

lemma poll_export_returns:
  "\<exists>y\<in>set obs. \<not> float_sub e (clock y) t0 < max_wait_time \<Longrightarrow>
   poll_export e fp t0 obs \<noteq> None"
  by (induction obs) (auto split: option.splits)

lemma find_speaker_none:
  "\<forall>k\<in>fst ` set tml. \<not> (fst k \<le> m \<and> m \<le> snd k) \<Longrightarrow> find_speaker tml m dflt = dflt"
  by (induction tml m dflt rule: find_speaker.induct) auto

lemma find_first:
  "find P xs = Some x \<Longrightarrow> \<exists>pre post. xs = pre @ x # post \<and> P x \<and> (\<forall>y\<in>set pre. \<not> P y)"
proof (induction xs)
  case Nil
  then show ?case by simp
next
  case (Cons a xs)
  show ?case
  proof (cases "P a")
    case True
    with Cons.prems have "a # xs = [] @ x # xs \<and> P x \<and> (\<forall>y\<in>set []. \<not> P y)"
      by simp
    then show ?thesis by blast
  next
    case False
    with Cons.prems have "find P xs = Some x" by simp
    from Cons.IH [OF this] obtain pre post where
      "xs = pre @ x # post" "P x" "\<forall>y\<in>set pre. \<not> P y"
      by blast
    with False have "a # xs = (a # pre) @ x # post \<and> P x \<and> (\<forall>y\<in>set (a # pre). \<not> P y)"
      by simp
    then show ?thesis by blast
  qed
qed

lemma map_of_rev_last:
  "filter (\<lambda>d. (d_start d, d_end d) = k) ds \<noteq> [] \<Longrightarrow>
   map_of (rev (map (\<lambda>d. ((d_start d, d_end d), d_speaker d)) ds)) k =
     Some (d_speaker (last (filter (\<lambda>d. (d_start d, d_end d) = k) ds)))"
  by (induction ds rule: rev_induct) auto

lemma distinct_span_filter:
  "distinct (map (\<lambda>d. (d_start d, d_end d)) ds) \<Longrightarrow> d \<in> set ds \<Longrightarrow>
   filter (\<lambda>d'. (d_start d', d_end d') = (d_start d, d_end d)) ds = [d]"
proof (induction ds)
  case Nil
  then show ?case by simp
next
  case (Cons a ds)
  show ?case
  proof (cases "d = a")
    case True
    have "filter (\<lambda>d'. (d_start d', d_end d') = (d_start a, d_end a)) ds = []"
      using Cons.prems(1) by (auto simp: filter_empty_conv image_iff)
    with True show ?thesis by simp
  next
    case False
    with Cons.prems have "d \<in> set ds" "(d_start a, d_end a) \<noteq> (d_start d, d_end d)"
      by (auto simp: image_iff)
    with Cons show ?thesis by simp
  qed
qed

text \<open>
  The label that the timeline gives a midpoint, read off the interval list: the first
  interval of the list that contains the midpoint fixes the span, and the last interval of
  the list with that span fixes the label.
\<close>

lemma find_speaker_timeline:
  "find_speaker (speaker_timeline ds) m dflt =
    (case find (\<lambda>d. d_start d \<le> m \<and> m \<le> d_end d) ds of
       None \<Rightarrow> dflt
     | Some d \<Rightarrow>
         d_speaker (last (filter (\<lambda>d'. (d_start d', d_end d') = (d_start d, d_end d)) ds)))"
proof (cases "find (\<lambda>d. d_start d \<le> m \<and> m \<le> d_end d) ds")
  case None
  then have "\<forall>d\<in>set ds. \<not> (d_start d \<le> m \<and> m \<le> d_end d)"
    by (simp add: find_None_iff)
  then have "\<forall>k\<in>fst ` set (speaker_timeline ds). \<not> (fst k \<le> m \<and> m \<le> snd k)"
    by (auto simp: speaker_timeline_keys)
  then show ?thesis using None by (simp add: find_speaker_none)
next
  case (Some d)
  let ?k0 = "(d_start d, d_end d)"
  from find_first [OF Some] obtain pre post where
    split: "ds = pre @ d # post" and inside: "d_start d \<le> m \<and> m \<le> d_end d"
    and before: "\<forall>y\<in>set pre. \<not> (d_start y \<le> m \<and> m \<le> d_end y)"
    by blast
  have "set (takeWhile (\<lambda>x. (d_start x, d_end x) \<noteq> ?k0) ds) \<subseteq> set pre"
    unfolding split by (auto simp: takeWhile_append dest: set_takeWhileD)
  with before have "\<forall>k\<in>set (takeWhile (\<lambda>k. k \<noteq> ?k0) (map fst (speaker_timeline ds))).
      \<not> (fst k \<le> m \<and> m \<le> snd k)"
    using keys_before [of ?k0 ds] by fastforce
  moreover have "?k0 \<in> fst ` set (speaker_timeline ds)"
    unfolding speaker_timeline_keys split by simp
  ultimately have "Some (find_speaker (speaker_timeline ds) m dflt) =
      map_of (speaker_timeline ds) ?k0"
    using inside by (intro find_speaker_at_key) simp_all
  moreover have "filter (\<lambda>d'. (d_start d', d_end d') = ?k0) ds \<noteq> []"
    unfolding split by simp
  ultimately have "find_speaker (speaker_timeline ds) m dflt =
      d_speaker (last (filter (\<lambda>d'. (d_start d', d_end d') = ?k0) ds))"
    by (simp add: map_of_speaker_timeline map_of_rev_last)
  then show ?thesis using Some by simp
qed

text \<open>
  What the transcription worker writes when the transcriber delivers: the record is
  reported as completed and the token is forwarded, and the state file cannot be loaded,
  so that the alignment worker drops the token.
\<close>

lemma transcriptions_not_persisted:
  "map status (progress_events (transcription_body demo_env ''a.mp4'' segmented)) =
     [''running'', ''running'', ''completed''] \<and>
   alignment_queue (transcription_body demo_env ''a.mp4'' segmented) = [''a.mp4''] \<and>
   files (transcription_body demo_env ''a.mp4'' segmented)
     (get_state_file_path ''a.mp4'' TRANSCRIPTION) = Some Garbage \<and>
   load_state (transcription_body demo_env ''a.mp4'' segmented) ''a.mp4'' TRANSCRIPTION = None \<and>
   alignment_worker demo_env (transcription_body demo_env ''a.mp4'' segmented) =
     (transcription_body demo_env ''a.mp4'' segmented)\<lparr>alignment_queue := []\<rparr>"
  by (simp add: body_defs worker_defs store_defs put_defs demo_defs float_defs Let_def)

section \<open>Resubmission of a finished file\<close>

text \<open>
  C1. Submitting a file whose seven stage records are all completed should reach Export
  by the skip path of every stage without any collaborator being called. The code does
  not do that: \<open>start_processing\<close> overwrites the Extract record with a pending one before
  it queues the token, so the extraction worker finds no completed record and calls the
  preprocessor again.
\<close>

theorem resubmit_invokes_preprocessor:
  assumes "\<forall>st. is_completed (load_state w fp st)"
    and "extraction_queue w = []"
    and "disk_write e (get_state_file_path fp EXTRACT_AUDIO) = WriteOk"
  shows "(Preprocessor, fp) \<in> set (collab_calls (extraction_worker e (start_processing e fp w)))"
  using assms(2,3)
  by (simp add: extraction_worker_def extraction_body_def store_defs Let_def put_vad_def
      split: outcome.splits option.splits)

text \<open>
  The file \<open>a.mp4\<close> with seven completed records is such an input. When its extraction
  succeeds again, the other stages are skipped and the completion callback is called.
\<close>

theorem resubmit_invokes_preprocessor_witness:
  "(\<forall>st. is_completed (load_state all_completed ''a.mp4'' st)) \<and>
   extraction_queue all_completed = [] \<and>
   disk_write demo_env (get_state_file_path ''a.mp4'' EXTRACT_AUDIO) = WriteOk \<and>
   (Preprocessor, ''a.mp4'') \<in>
     set (collab_calls (extraction_worker demo_env (start_processing demo_env ''a.mp4'' all_completed))) \<and>
   collab_calls (pipeline_pass demo_env (start_processing demo_env ''a.mp4'' all_completed)) =
     [(Preprocessor, ''a.mp4'')] \<and>
   completion_events (pipeline_pass demo_env (start_processing demo_env ''a.mp4'' all_completed)) =
     [(''a.mp4'', PSegments demo_segments)]"
proof -
  have h1: "\<forall>st. is_completed (load_state all_completed ''a.mp4'' st)"
    by (simp add: all_completed_loads)
  have h2: "extraction_queue all_completed = []"
    by (simp add: store_defs demo_defs)
  have h3: "disk_write demo_env (get_state_file_path ''a.mp4'' EXTRACT_AUDIO) = WriteOk"
    by (simp add: demo_env_def)
  have run: "collab_calls (pipeline_pass demo_env (start_processing demo_env ''a.mp4'' all_completed)) =
      [(Preprocessor, ''a.mp4'')]"
    "completion_events (pipeline_pass demo_env (start_processing demo_env ''a.mp4'' all_completed)) =
      [(''a.mp4'', PSegments demo_segments)]"
    by (simp_all add: worker_defs body_defs store_defs put_defs demo_defs Let_def)
  show ?thesis
    using resubmit_invokes_preprocessor [OF h1 h2 h3] h1 h2 h3 run by blast
qed

section \<open>Speaker assignment in Merge\<close>

text \<open>
  C2, as amended. For a Merge run on a completed Align record and a list of diarization
  intervals (the empty list when no Diarize record is stored), the stored Merge result
  keeps the segments and words in number and order, and every word is given a speaker as
  follows, with \<open>m\<close> the float value of \<open>start + (end - start) / 2\<close> of the word: when no
  interval of the list has \<open>start \<le> m \<le> end\<close>, the speaker is \<open>UNKNOWN\<close>; otherwise the
  first such interval in list order fixes the span, and the speaker is the label of the
  last interval of the list with that span. When no two intervals of the list share a
  span, that is the label of the first interval that contains \<open>m\<close>.
\<close>

theorem merge_assigns_speaker_of_first_containing_span:
  assumes "load_state w fp ALIGNMENT = Some alignment_state"
    and "status alignment_state = ''completed''"
    and "result alignment_state = PSegments segs"
    and "\<not> is_completed (load_state w fp MERGE_SEGMENTS)"
    and "case load_state w fp DIARIZATION of
           None \<Rightarrow> ds = []
         | Some diarization_state \<Rightarrow> result diarization_state = PDiarization ds"
    and "disk_write e (get_state_file_path fp MERGE_SEGMENTS) = WriteOk"
  shows "\<exists>merged segs'.
      load_state (merge_body e fp w) fp MERGE_SEGMENTS = Some merged \<and>
      status merged = ''completed'' \<and> result merged = PSegments segs' \<and>
      length segs' = length segs \<and>
      (\<forall>i<length segs. \<forall>ws. seg_words (segs ! i) = Some ws \<longrightarrow>
         (\<exists>ws'. seg_words (segs' ! i) = Some ws' \<and> length ws' = length ws \<and>
            (\<forall>j<length ws. w_speaker (ws' ! j) = Some
               (case find (\<lambda>d.
                   d_start d \<le> float_round e (w_start (ws ! j) +
                       float_round e (float_round e (w_end (ws ! j) - w_start (ws ! j)) / 2)) \<and>
                   float_round e (w_start (ws ! j) +
                       float_round e (float_round e (w_end (ws ! j) - w_start (ws ! j)) / 2))
                     \<le> d_end d) ds of
                  None \<Rightarrow> ''UNKNOWN''
                | Some d \<Rightarrow>
                    d_speaker (last (filter
                      (\<lambda>d'. (d_start d', d_end d') = (d_start d, d_end d)) ds)))))) \<and>
      (distinct (map (\<lambda>d. (d_start d, d_end d)) ds) \<longrightarrow>
         (\<forall>d\<in>set ds.
            last (filter (\<lambda>d'. (d_start d', d_end d') = (d_start d, d_end d)) ds) = d))"
proof -
  let ?segs' = "map (assign_segment e (speaker_timeline ds)) segs"
  from merge_body_stored [OF assms] obtain merged where
    stored: "load_state (merge_body e fp w) fp MERGE_SEGMENTS = Some merged"
      "status merged = ''completed''" "result merged = PSegments ?segs'"
    by blast
  have words: "\<forall>i<length segs. \<forall>ws. seg_words (segs ! i) = Some ws \<longrightarrow>
         (\<exists>ws'. seg_words (?segs' ! i) = Some ws' \<and> length ws' = length ws \<and>
            (\<forall>j<length ws. w_speaker (ws' ! j) = Some
               (case find (\<lambda>d.
                   d_start d \<le> float_round e (w_start (ws ! j) +
                       float_round e (float_round e (w_end (ws ! j) - w_start (ws ! j)) / 2)) \<and>
                   float_round e (w_start (ws ! j) +
                       float_round e (float_round e (w_end (ws ! j) - w_start (ws ! j)) / 2))
                     \<le> d_end d) ds of
                  None \<Rightarrow> ''UNKNOWN''
                | Some d \<Rightarrow>
                    d_speaker (last (filter
                      (\<lambda>d'. (d_start d', d_end d') = (d_start d, d_end d)) ds)))))"
    by (simp add: assign_segment_words assign_word_def find_speaker_timeline float_defs)
  have single: "distinct (map (\<lambda>d. (d_start d, d_end d)) ds) \<longrightarrow>
         (\<forall>d\<in>set ds.
            last (filter (\<lambda>d'. (d_start d', d_end d') = (d_start d, d_end d)) ds) = d)"
  proof (intro impI ballI)
    fix d
    assume "distinct (map (\<lambda>d. (d_start d, d_end d)) ds)" and "d \<in> set ds"
    from distinct_span_filter [OF this]
    show "last (filter (\<lambda>d'. (d_start d', d_end d') = (d_start d, d_end d)) ds) = d"
      by simp
  qed
  show ?thesis
    using stored words single by simp
qed

text \<open>
  The tie-break of the specification: with intervals \<open>(0, 3/2, A)\<close> and \<open>(3/2, 3, B)\<close>, the
  word spanning \<open>[1, 2]\<close> has midpoint \<open>3/2\<close>, which both contain, and is given \<open>A\<close>.
\<close>

theorem merge_assigns_speaker_of_first_containing_span_witness:
  "load_state aligned_and_diarized ''a.mp4'' ALIGNMENT =
     Some (completed_state ''a.mp4'' ALIGNMENT (PSegments demo_segments)) \<and>
   \<not> is_completed (load_state aligned_and_diarized ''a.mp4'' MERGE_SEGMENTS) \<and>
   load_state aligned_and_diarized ''a.mp4'' DIARIZATION =
     Some (completed_state ''a.mp4'' DIARIZATION (PDiarization demo_intervals)) \<and>
   distinct (map (\<lambda>d. (d_start d, d_end d)) demo_intervals) \<and>
   (\<exists>merged segs' ws'.
      load_state (merge_body demo_env ''a.mp4'' aligned_and_diarized) ''a.mp4'' MERGE_SEGMENTS =
        Some merged \<and>
      result merged = PSegments segs' \<and> seg_words (segs' ! 0) = Some ws' \<and>
      w_speaker (ws' ! 0) = Some ''A'')"
proof -
  let ?a = "completed_state ''a.mp4'' ALIGNMENT (PSegments demo_segments)"
  have h1: "load_state aligned_and_diarized ''a.mp4'' ALIGNMENT = Some ?a"
    by (simp add: store_defs demo_defs)
  have h2: "status ?a = ''completed''" and h3: "result ?a = PSegments demo_segments"
    by (simp_all add: completed_state_def)
  have h4: "\<not> is_completed (load_state aligned_and_diarized ''a.mp4'' MERGE_SEGMENTS)"
    by (simp add: store_defs demo_defs)
  have d: "load_state aligned_and_diarized ''a.mp4'' DIARIZATION =
     Some (completed_state ''a.mp4'' DIARIZATION (PDiarization demo_intervals))"
    by (simp add: store_defs demo_defs)
  have h5: "case load_state aligned_and_diarized ''a.mp4'' DIARIZATION of
      None \<Rightarrow> demo_intervals = []
    | Some diarization_state \<Rightarrow> result diarization_state = PDiarization demo_intervals"
    by (simp add: d completed_state_def)
  have h6: "disk_write demo_env (get_state_file_path ''a.mp4'' MERGE_SEGMENTS) = WriteOk"
    by (simp add: demo_env_def)
  have dist: "distinct (map (\<lambda>d. (d_start d, d_end d)) demo_intervals)"
    by (simp add: demo_intervals_def)
  from merge_assigns_speaker_of_first_containing_span [OF h1 h2 h3 h4 h5 h6]
  obtain merged segs' where m:
    "load_state (merge_body demo_env ''a.mp4'' aligned_and_diarized) ''a.mp4'' MERGE_SEGMENTS =
       Some merged"
    "result merged = PSegments segs'"
    and words: "\<forall>i<length demo_segments. \<forall>ws. seg_words (demo_segments ! i) = Some ws \<longrightarrow>
         (\<exists>ws'. seg_words (segs' ! i) = Some ws' \<and> length ws' = length ws \<and>
            (\<forall>j<length ws. w_speaker (ws' ! j) = Some
               (case find (\<lambda>d.
                   d_start d \<le> float_round demo_env (w_start (ws ! j) +
                       float_round demo_env (float_round demo_env (w_end (ws ! j) - w_start (ws ! j)) / 2)) \<and>
                   float_round demo_env (w_start (ws ! j) +
                       float_round demo_env (float_round demo_env (w_end (ws ! j) - w_start (ws ! j)) / 2))
                     \<le> d_end d) demo_intervals of
                  None \<Rightarrow> ''UNKNOWN''
                | Some d \<Rightarrow>
                    d_speaker (last (filter
                      (\<lambda>d'. (d_start d', d_end d') = (d_start d, d_end d)) demo_intervals)))))"
    by blast
  have "seg_words (demo_segments ! 0) = Some [demo_word]" "0 < length demo_segments"
    by (simp_all add: demo_segments_def)
  with words obtain ws' where ws': "seg_words (segs' ! 0) = Some ws'"
    "\<forall>j<length [demo_word]. w_speaker (ws' ! j) = Some
               (case find (\<lambda>d.
                   d_start d \<le> float_round demo_env (w_start ([demo_word] ! j) +
                       float_round demo_env (float_round demo_env (w_end ([demo_word] ! j) - w_start ([demo_word] ! j)) / 2)) \<and>
                   float_round demo_env (w_start ([demo_word] ! j) +
                       float_round demo_env (float_round demo_env (w_end ([demo_word] ! j) - w_start ([demo_word] ! j)) / 2))
                     \<le> d_end d) demo_intervals of
                  None \<Rightarrow> ''UNKNOWN''
                | Some d \<Rightarrow>
                    d_speaker (last (filter
                      (\<lambda>d'. (d_start d', d_end d') = (d_start d, d_end d)) demo_intervals)))"
    by blast
  then have "w_speaker (ws' ! 0) = Some ''A''"
    by (simp add: demo_word_def demo_intervals_def demo_env_def)
  with m ws' h1 h4 d dist show ?thesis by blast
qed

text \<open>
  The claim that the word is given the label of the first interval that contains its
  midpoint fails when a span is repeated: in the list \<open>(1, 2, A)\<close>, \<open>(5, 6, C)\<close>,
  \<open>(1, 2, B)\<close> the first interval that contains the midpoint \<open>3/2\<close> of the word is
  \<open>(1, 2, A)\<close>, and Merge gives the word the speaker \<open>B\<close>.
\<close>

theorem repeated_span_counterexample:
  "find (\<lambda>d. d_start d \<le> 3 / 2 \<and> 3 / 2 \<le> d_end d) duplicate_intervals =
     Some \<lparr>d_start = 1, d_end = 2, d_speaker = ''A''\<rparr> \<and>
   w_start demo_word + (w_end demo_word - w_start demo_word) / 2 = 3 / 2 \<and>
   map_option result (load_state aligned_only ''a.mp4'' ALIGNMENT) =
     Some (PSegments demo_segments) \<and>
   map_option result
     (load_state (save_state demo_env
        (completed_state ''a.mp4'' DIARIZATION (PDiarization duplicate_intervals)) aligned_only)
        ''a.mp4'' DIARIZATION) = Some (PDiarization duplicate_intervals) \<and>
   map_option result (load_state
      (merge_body demo_env ''a.mp4''
         (save_state demo_env
            (completed_state ''a.mp4'' DIARIZATION (PDiarization duplicate_intervals))
            aligned_only))
      ''a.mp4'' MERGE_SEGMENTS) =
     Some (PSegments [\<lparr>seg_text = ''hi'', seg_start = 1, seg_end = 2,
        seg_words = Some [demo_word\<lparr>w_speaker := Some ''B''\<rparr>]\<rparr>])"
  by (simp add: body_defs store_defs put_defs demo_defs Let_def duplicate_intervals_def
      speaker_timeline_def assign_segment_def assign_word_def float_defs)

section \<open>Failure of a collaborator\<close>




section \<open>Diarization disabled\<close>

text \<open>
  C4, as amended. With diarization disabled, the Diarize worker forwards the token it
  takes to the Merge queue and writes no record (the state files, the callbacks and the
  collaborators are untouched); and when no Diarize record is stored for the file, every
  word of the Merge result that follows carries the speaker \<open>UNKNOWN\<close>.
\<close>

theorem disabled_diarization_bypass:
  assumes "\<not> diarization_setting e"
    and "diarization_queue w = fp # rest"
    and "merge_queue w = []"
  shows "files (diarization_worker e w) = files w \<and>
    progress_events (diarization_worker e w) = progress_events w \<and>
    collab_calls (diarization_worker e w) = collab_calls w \<and>
    merge_queue (diarization_worker e w) = [fp] \<and>
    (load_state w fp DIARIZATION = None \<and>
     load_state w fp ALIGNMENT = Some alignment_state \<and>
     status alignment_state = ''completed'' \<and> result alignment_state = PSegments segs \<and>
     \<not> is_completed (load_state w fp MERGE_SEGMENTS) \<and>
     disk_write e (get_state_file_path fp MERGE_SEGMENTS) = WriteOk \<longrightarrow>
       (\<exists>merged segs'.
          load_state (merge_worker e (diarization_worker e w)) fp MERGE_SEGMENTS = Some merged \<and>
          status merged = ''completed'' \<and> result merged = PSegments segs' \<and>
          length segs' = length segs \<and>
          (\<forall>seg\<in>set segs'. \<forall>ws. seg_words seg = Some ws \<longrightarrow>
             (\<forall>wd\<in>set ws. w_speaker wd = Some ''UNKNOWN''))))"
proof -
  let ?w1 = "w\<lparr>diarization_queue := rest, merge_queue := [fp]\<rparr>"
  let ?w2 = "w\<lparr>diarization_queue := rest, merge_queue := []\<rparr>"
  have dw: "diarization_worker e w = ?w1"
    using assms by (simp add: diarization_worker_def diarization_body_def put_merge_def)
  have mw: "merge_worker e ?w1 = merge_body e fp ?w2"
    by (simp add: merge_worker_def)
  have ld: "load_state ?w2 fp st = load_state w fp st" for st
    by (simp add: load_state_def)
  have merged: "\<exists>merged segs'.
          load_state (merge_worker e (diarization_worker e w)) fp MERGE_SEGMENTS = Some merged \<and>
          status merged = ''completed'' \<and> result merged = PSegments segs' \<and>
          length segs' = length segs \<and>
          (\<forall>seg\<in>set segs'. \<forall>ws. seg_words seg = Some ws \<longrightarrow>
             (\<forall>wd\<in>set ws. w_speaker wd = Some ''UNKNOWN''))"
    if h: "load_state w fp DIARIZATION = None" "load_state w fp ALIGNMENT = Some alignment_state"
      "status alignment_state = ''completed''" "result alignment_state = PSegments segs"
      "\<not> is_completed (load_state w fp MERGE_SEGMENTS)"
      "disk_write e (get_state_file_path fp MERGE_SEGMENTS) = WriteOk"
  proof -
    have "case load_state ?w2 fp DIARIZATION of None \<Rightarrow> ([] :: diarization_segment list) = []
        | Some diarization_state \<Rightarrow> result diarization_state = PDiarization []"
      by (simp add: ld h(1))
    from merge_body_stored [of ?w2 fp alignment_state segs "[]" e, OF _ h(3) h(4) _ this h(6)]
    obtain merged where "load_state (merge_body e fp ?w2) fp MERGE_SEGMENTS = Some merged"
      "status merged = ''completed''"
      "result merged = PSegments (map (assign_segment e (speaker_timeline [])) segs)"
      using h(2,5) by (auto simp: ld)
    then show ?thesis
      unfolding dw mw using no_intervals_unknown [of _ e segs] by (intro exI conjI ballI allI impI) (assumption | simp)+
  qed
  show ?thesis using dw merged by simp
qed

theorem disabled_diarization_bypass_witness:
  "\<not> diarization_setting (demo_env\<lparr>diarization_setting := False\<rparr>) \<and>
   load_state (aligned_only\<lparr>diarization_queue := [''a.mp4'']\<rparr>) ''a.mp4'' DIARIZATION = None \<and>
   merge_queue (diarization_worker (demo_env\<lparr>diarization_setting := False\<rparr>)
      (aligned_only\<lparr>diarization_queue := [''a.mp4'']\<rparr>)) = [''a.mp4''] \<and>
   map_option result (load_state
      (merge_worker (demo_env\<lparr>diarization_setting := False\<rparr>)
         (diarization_worker (demo_env\<lparr>diarization_setting := False\<rparr>)
            (aligned_only\<lparr>diarization_queue := [''a.mp4'']\<rparr>)))
      ''a.mp4'' MERGE_SEGMENTS) =
     Some (PSegments [\<lparr>seg_text = ''hi'', seg_start = 1, seg_end = 2,
        seg_words = Some [demo_word\<lparr>w_speaker := Some ''UNKNOWN''\<rparr>]\<rparr>])"
proof -
  let ?e = "demo_env\<lparr>diarization_setting := False\<rparr>"
  let ?w = "aligned_only\<lparr>diarization_queue := [''a.mp4'']\<rparr>"
  have h1: "\<not> diarization_setting ?e" by simp
  have h2: "diarization_queue ?w = ''a.mp4'' # []" by simp
  have h3: "merge_queue ?w = []" by (simp add: store_defs demo_defs)
  have d: "load_state ?w ''a.mp4'' DIARIZATION = None"
    by (simp add: store_defs demo_defs)
  have v: "map_option result (load_state (merge_worker ?e (diarization_worker ?e ?w))
      ''a.mp4'' MERGE_SEGMENTS) =
     Some (PSegments [\<lparr>seg_text = ''hi'', seg_start = 1, seg_end = 2,
        seg_words = Some [demo_word\<lparr>w_speaker := Some ''UNKNOWN''\<rparr>]\<rparr>])"
    by (simp add: diarization_worker_def merge_worker_def body_defs store_defs put_defs
        demo_defs Let_def speaker_timeline_def assign_segment_def assign_word_def float_defs)
  from disabled_diarization_bypass [OF h1 h2 h3]
  have "merge_queue (diarization_worker ?e ?w) = [''a.mp4'']" by blast
  then show ?thesis using h1 d v by blast
qed

text \<open>
  Merge reads the Diarize record whatever the setting is. With a Diarize record left by an
  earlier run, the word is given the speaker \<open>A\<close> although diarization is disabled.
\<close>

theorem stale_intervals_counterexample:
  "\<not> diarization_setting (demo_env\<lparr>diarization_setting := False\<rparr>) \<and>
   map_option result (load_state
      (merge_worker (demo_env\<lparr>diarization_setting := False\<rparr>)
         (diarization_worker (demo_env\<lparr>diarization_setting := False\<rparr>)
            (aligned_and_diarized\<lparr>diarization_queue := [''a.mp4'']\<rparr>)))
      ''a.mp4'' MERGE_SEGMENTS) =
     Some (PSegments [\<lparr>seg_text = ''hi'', seg_start = 1, seg_end = 2,
        seg_words = Some [demo_word\<lparr>w_speaker := Some ''A''\<rparr>]\<rparr>])"
  by (simp add: diarization_worker_def merge_worker_def body_defs store_defs put_defs
        demo_defs Let_def speaker_timeline_def assign_segment_def assign_word_def
        float_defs)

section \<open>A file without speech\<close>

text \<open>
  C5. A file whose completed SegmentSpeech record holds no segment should still reach
  completed Merge and Export records with an empty result. In the code Transcribe
  completes with no transcriptions, and Align then fails: the aligner has nothing to
  return but the empty list, which the worker takes for a failure. No Merge and no Export
  record is written and the completion callback is not called.
\<close>

theorem empty_speech_fails_alignment:
  "map_option result (load_state no_speech ''a.mp4'' VAD_SEGMENTATION) = Some (PStrList []) \<and>
   transcription_queue no_speech = [''a.mp4''] \<and>
   map_option result (load_state (pipeline_pass demo_env no_speech) ''a.mp4'' TRANSCRIPTION) =
     Some (PTranscriptions []) \<and>
   map_option status (load_state (pipeline_pass demo_env no_speech) ''a.mp4'' TRANSCRIPTION) =
     Some ''completed'' \<and>
   map_option status (load_state (pipeline_pass demo_env no_speech) ''a.mp4'' ALIGNMENT) =
     Some ''failed'' \<and>
   map_option error (load_state (pipeline_pass demo_env no_speech) ''a.mp4'' ALIGNMENT) =
     Some (Some ''Word alignment failed'') \<and>
   load_state (pipeline_pass demo_env no_speech) ''a.mp4'' MERGE_SEGMENTS = None \<and>
   load_state (pipeline_pass demo_env no_speech) ''a.mp4'' EXPORT = None \<and>
   completion_events (pipeline_pass demo_env no_speech) = []"
  by (simp add: worker_defs body_defs store_defs put_defs demo_defs Let_def align_words_def)

section \<open>Devices of the transcription workers\<close>

text \<open>
  C6. Each transcription worker should be bound to a device of its own. The code starts
  one transcription worker per configured device, and every one of them takes the first
  device of the list: with the devices \<open>cuda:0\<close> and \<open>cuda:1\<close>, both workers run on
  \<open>cuda:0\<close> and none on \<open>cuda:1\<close>.
\<close>

theorem one_device_for_all_transcription_workers:
  "transcription_devices
     (start_workers 4 (init_gpu_devices True (Some [''cuda:0'', ''cuda:1'']))) =
   [''cuda:0'', ''cuda:0'']"
  by (simp add: transcription_devices_def start_workers_def init_gpu_devices_def
      transcription_worker_device_def numeral_2_eq_2)

section \<open>Tokens whose upstream record is missing\<close>

text \<open>
  When the record of a stage is not completed and a record that the stage needs is missing
  or not completed, the workers drop the token and leave the world as it was. For the
  alignment worker this holds for the Transcribe record, and for the Extract record only
  when it is missing.
\<close>

lemma starved_token_dropped:
  "(\<not> is_completed (load_state w fp VAD_SEGMENTATION) \<and>
    \<not> is_completed (load_state w fp EXTRACT_AUDIO) \<longrightarrow> vad_body e fp w = w) \<and>
   (\<not> is_completed (load_state w fp TRANSCRIPTION) \<and>
    \<not> is_completed (load_state w fp VAD_SEGMENTATION) \<longrightarrow> transcription_body e fp w = w) \<and>
   (\<not> is_completed (load_state w fp ALIGNMENT) \<and>
    (\<not> is_completed (load_state w fp TRANSCRIPTION) \<or> load_state w fp EXTRACT_AUDIO = None)
      \<longrightarrow> alignment_body e fp w = w) \<and>
   (diarization_setting e \<and> \<not> is_completed (load_state w fp DIARIZATION) \<and>
    \<not> is_completed (load_state w fp EXTRACT_AUDIO) \<longrightarrow> diarization_body e fp w = w) \<and>
   (\<not> is_completed (load_state w fp MERGE_SEGMENTS) \<and>
    \<not> is_completed (load_state w fp ALIGNMENT) \<longrightarrow> merge_body e fp w = w) \<and>
   (\<not> is_completed (load_state w fp MERGE_SEGMENTS) \<longrightarrow> export_body e fp w = w)"
  by (auto simp: body_defs is_completed_def split: option.splits)

text \<open>
  C7. Every stage but Extract should drop a token whose required upstream record is
  missing or not completed, without forwarding it and without writing a record of its
  own. The alignment worker requires the Extract record, and tests only that it exists:
  with an Extract record that is not completed (and a completed Transcribe record), it
  writes a running record, calls the aligner with the result of the unfinished Extract
  record, and writes a failed or a completed Align record.
\<close>

theorem alignment_runs_on_unfinished_extraction:
  assumes "\<not> is_completed (load_state w fp ALIGNMENT)"
    and "load_state w fp TRANSCRIPTION = Some transcription_state"
    and "status transcription_state = ''completed''"
    and "result transcription_state = PTranscriptions items"
    and "load_state w fp EXTRACT_AUDIO = Some audio_state"
    and "status audio_state \<noteq> ''completed''"
    and "disk_write e (get_state_file_path fp ALIGNMENT) = WriteOk"
  shows "collab_calls (alignment_body e fp w) = collab_calls w @ [(Aligner, fp)] \<and>
    (\<exists>s. load_state (alignment_body e fp w) fp ALIGNMENT = Some s \<and>
       (status s = ''failed'' \<or> status s = ''completed'')) \<and>
    (whisperx_align e (fst (prepare_alignment items [] None)) (result audio_state)
         (snd (prepare_alignment items [] None)) = Raises \<longrightarrow>
       failure_recorded e fp ALIGNMENT (alignment_body e fp w)) \<and>
    (\<forall>r. whisperx_align e (fst (prepare_alignment items [] None)) (result audio_state)
         (snd (prepare_alignment items [] None)) = Returns r \<and> r \<noteq> [] \<longrightarrow>
       diarization_queue (alignment_body e fp w) = diarization_queue w @ [fp])"
proof -
  let ?state = "new_state fp ALIGNMENT ''running'' (clock w)"
  let ?w2 = "called Aligner fp (save_and_notify e ?state w)"
  obtain all_segments language where prep:
    "prepare_alignment items [] None = (all_segments, language)"
    by (cases "prepare_alignment items [] None") blast
  let ?r = "align_words e all_segments (result audio_state) language"
  have body: "alignment_body e fp w =
      (case ?r of
         None \<Rightarrow> mark_failed e ?state ''Word alignment failed'' ?w2
       | Some aligned_result \<Rightarrow>
           if aligned_result = [] then mark_failed e ?state ''Word alignment failed'' ?w2
           else put_diarization fp (mark_completed e ?state (PSegments aligned_result) ?w2))"
    using assms(1-5) prep by (simp add: alignment_body_def Let_def)
  have calls: "collab_calls (alignment_body e fp w) = collab_calls w @ [(Aligner, fp)]"
    unfolding body
    by (simp add: collab_calls_mark collab_calls_save_and_notify called_def put_diarization_def
        split: option.splits)
  have rec: "\<exists>s. load_state (alignment_body e fp w) fp ALIGNMENT = Some s \<and>
       (status s = ''failed'' \<or> status s = ''completed'')"
    unfolding body using assms(7)
    by (simp add: load_mark load_put_diarization new_state_def split: option.splits)
  have failed: "failure_recorded e fp ALIGNMENT (alignment_body e fp w)"
    if "whisperx_align e all_segments (result audio_state) language = Raises"
  proof -
    from that have "?r = None" by (simp add: align_words_def)
    then show ?thesis
      unfolding body using assms(7) by (simp add: mark_failed_recorded new_state_fields)
  qed
  have forwarded: "diarization_queue (alignment_body e fp w) = diarization_queue w @ [fp]"
    if "whisperx_align e all_segments (result audio_state) language = Returns r" "r \<noteq> []" for r
  proof -
    from that have "?r = Some r" by (simp add: align_words_def)
    then show ?thesis
      unfolding body using that(2)
      by (simp add: put_diarization_def mark_completed_def save_and_notify_def save_state_def
          notify_progress_def called_def Let_def split: write_outcome.splits)
  qed
  show ?thesis using calls rec failed forwarded by (simp add: prep)
qed

text \<open>
  After a resubmission the Extract record of \<open>a.mp4\<close> is pending and holds no path. A token
  of the file at the alignment stage is not dropped: the aligner is called (here its
  library raises on the missing path) and a failed Align record is written.
\<close>

theorem alignment_runs_on_unfinished_extraction_witness:
  "map_option status
     (load_state (start_processing demo_env ''a.mp4'' transcribed_speech) ''a.mp4'' EXTRACT_AUDIO) =
     Some ''pending'' \<and>
   map_option result
     (load_state (start_processing demo_env ''a.mp4'' transcribed_speech) ''a.mp4'' EXTRACT_AUDIO) =
     Some PNone \<and>
   collab_calls (alignment_body (demo_env\<lparr>whisperx_align := \<lambda>_ _ _. Raises\<rparr>) ''a.mp4''
      (start_processing demo_env ''a.mp4'' transcribed_speech)) = [(Aligner, ''a.mp4'')] \<and>
   failure_recorded (demo_env\<lparr>whisperx_align := \<lambda>_ _ _. Raises\<rparr>) ''a.mp4'' ALIGNMENT
     (alignment_body (demo_env\<lparr>whisperx_align := \<lambda>_ _ _. Raises\<rparr>) ''a.mp4''
        (start_processing demo_env ''a.mp4'' transcribed_speech))"
proof -
  let ?e = "demo_env\<lparr>whisperx_align := \<lambda>_ _ _. Raises\<rparr>"
  let ?w = "start_processing demo_env ''a.mp4'' transcribed_speech"
  let ?t = "completed_state ''a.mp4'' TRANSCRIPTION (PTranscriptions [demo_transcription])"
  let ?a = "new_state ''a.mp4'' EXTRACT_AUDIO ''pending'' 0"
  have h1: "\<not> is_completed (load_state ?w ''a.mp4'' ALIGNMENT)"
    by (simp add: store_defs demo_defs)
  have h2: "load_state ?w ''a.mp4'' TRANSCRIPTION = Some ?t"
    by (simp add: store_defs demo_defs)
  have h3: "status ?t = ''completed''"
    and h4: "result ?t = PTranscriptions [demo_transcription]"
    by (simp_all add: completed_state_def)
  have h5: "load_state ?w ''a.mp4'' EXTRACT_AUDIO = Some ?a"
    by (simp add: store_defs demo_defs)
  have h6: "status ?a \<noteq> ''completed''"
    by (simp add: new_state_def)
  have h7: "disk_write ?e (get_state_file_path ''a.mp4'' ALIGNMENT) = WriteOk"
    by (simp add: demo_env_def)
  have calls: "collab_calls ?w = []"
    by (simp add: store_defs demo_defs)
  have raises: "whisperx_align ?e (fst (prepare_alignment [demo_transcription] [] None))
      (result ?a) (snd (prepare_alignment [demo_transcription] [] None)) = Raises"
    by simp
  from alignment_runs_on_unfinished_extraction [OF h1 h2 h3 h4 h5 h6 h7] raises calls
  have "collab_calls (alignment_body ?e ''a.mp4'' ?w) = [(Aligner, ''a.mp4'')] \<and>
      failure_recorded ?e ''a.mp4'' ALIGNMENT (alignment_body ?e ''a.mp4'' ?w)"
    by simp
  then show ?thesis using h5 by (simp add: new_state_def)
qed

section \<open>Write errors of the state store\<close>




section \<open>Synchronous processing of one file\<close>

text \<open>
  C9, as amended. \<open>process_file\<close> submits the file and polls its Export record with the
  fixed bound of 300 seconds, which no caller can set. As long as each poll is within the
  bound and sees no completed Export record, it goes on polling. The first poll that is
  within the bound and sees a completed Export record makes it return the stored result
  of that record; the first poll that is past the bound makes it return \<open>None\<close>. It
  returns in no other way.
\<close>

theorem process_file_polls_for_300_seconds:
  "max_wait_time = 300 \<and>
   fst (process_file e fp w (w0 # obs)) = start_processing e fp w \<and>
   (\<forall>pre x post s.
      obs = pre @ x # post \<and>
      (\<forall>y\<in>set pre. float_sub e (clock y) (clock w0) < 300 \<and>
          \<not> is_completed (load_state y fp EXPORT)) \<and>
      float_sub e (clock x) (clock w0) < 300 \<and>
      load_state x fp EXPORT = Some s \<and> status s = ''completed'' \<longrightarrow>
        snd (process_file e fp w (w0 # obs)) = Some (result s)) \<and>
   (\<forall>pre x post.
      obs = pre @ x # post \<and>
      (\<forall>y\<in>set pre. float_sub e (clock y) (clock w0) < 300 \<and>
          \<not> is_completed (load_state y fp EXPORT)) \<and>
      \<not> float_sub e (clock x) (clock w0) < 300 \<longrightarrow>
        snd (process_file e fp w (w0 # obs)) = Some PNone) \<and>
   ((\<forall>y\<in>set obs. float_sub e (clock y) (clock w0) < 300 \<and>
        \<not> is_completed (load_state y fp EXPORT)) \<longrightarrow>
      snd (process_file e fp w (w0 # obs)) = None) \<and>
   (\<forall>r. snd (process_file e fp w (w0 # obs)) = Some r \<longrightarrow>
      (\<exists>pre x post. obs = pre @ x # post \<and>
         (\<forall>y\<in>set pre. float_sub e (clock y) (clock w0) < 300 \<and>
             \<not> is_completed (load_state y fp EXPORT)) \<and>
         (if float_sub e (clock x) (clock w0) < 300
          then is_completed (load_state x fp EXPORT) \<and>
               map_option result (load_state x fp EXPORT) = Some r
          else r = PNone))) \<and>
   ((\<exists>y\<in>set obs. \<not> float_sub e (clock y) (clock w0) < 300) \<longrightarrow>
      snd (process_file e fp w (w0 # obs)) \<noteq> None)"
proof -
  let ?t0 = "clock w0"
  have s: "snd (process_file e fp w (w0 # obs)) = poll_export e fp ?t0 obs"
    and f: "fst (process_file e fp w (w0 # obs)) = start_processing e fp w"
    by (simp_all add: process_file_def Let_def)
  have completed: "poll_export e fp ?t0 obs = Some (result s)"
    if "obs = pre @ x # post"
      and "\<forall>y\<in>set pre. float_sub e (clock y) ?t0 < max_wait_time \<and>
          \<not> is_completed (load_state y fp EXPORT)"
      and "float_sub e (clock x) ?t0 < max_wait_time"
      and "load_state x fp EXPORT = Some s" "status s = ''completed''"
    for pre x post s
    using that by (simp add: poll_export_prefix)
  have timeout: "poll_export e fp ?t0 obs = Some PNone"
    if "obs = pre @ x # post"
      and "\<forall>y\<in>set pre. float_sub e (clock y) ?t0 < max_wait_time \<and>
          \<not> is_completed (load_state y fp EXPORT)"
      and "\<not> float_sub e (clock x) ?t0 < max_wait_time"
    for pre x post
    using that by (simp add: poll_export_prefix)
  have polling: "poll_export e fp ?t0 obs = None"
    if "\<forall>y\<in>set obs. float_sub e (clock y) ?t0 < max_wait_time \<and>
          \<not> is_completed (load_state y fp EXPORT)"
    using poll_export_prefix [OF that, of "[]"] by simp
  show ?thesis
    unfolding s f
    using completed timeout polling
      poll_export_returned [of e fp ?t0 obs] poll_export_returns [of obs e ?t0 fp]
    by (simp add: max_wait_time_def)
qed

text \<open>
  Two runs: the Export record is seen completed at the poll after 20 seconds, and its
  result is returned; no Export record is seen and the poll after 301 seconds gives
  \<open>None\<close>.
\<close>

theorem process_file_polls_for_300_seconds_witness:
  "load_state (all_completed\<lparr>clock := 20\<rparr>) ''a.mp4'' EXPORT =
     Some (completed_state ''a.mp4'' EXPORT (PSegments demo_segments)) \<and>
   snd (process_file demo_env ''a.mp4'' empty_world
      [empty_world, empty_world\<lparr>clock := 1\<rparr>, all_completed\<lparr>clock := 20\<rparr>]) =
     Some (PSegments demo_segments) \<and>
   snd (process_file demo_env ''a.mp4'' empty_world
      [empty_world, empty_world\<lparr>clock := 1\<rparr>, empty_world\<lparr>clock := 301\<rparr>]) = Some PNone"
proof -
  let ?s = "completed_state ''a.mp4'' EXPORT (PSegments demo_segments)"
  have l: "load_state (all_completed\<lparr>clock := 20\<rparr>) ''a.mp4'' EXPORT = Some ?s"
    by (simp add: store_defs demo_defs)
  have st: "status ?s = ''completed''" "result ?s = PSegments demo_segments"
    by (simp_all add: completed_state_def)
  have pre: "\<forall>y\<in>set [empty_world\<lparr>clock := 1\<rparr>].
      float_sub demo_env (clock y) (clock empty_world) < 300 \<and>
      \<not> is_completed (load_state y ''a.mp4'' EXPORT)"
    by (simp add: float_defs store_defs demo_defs)
  have live: "float_sub demo_env (clock (all_completed\<lparr>clock := 20\<rparr>)) (clock empty_world) < 300"
    by (simp add: float_defs demo_defs)
  have late: "\<not> float_sub demo_env (clock (empty_world\<lparr>clock := 301\<rparr>)) (clock empty_world) < 300"
    by (simp add: float_defs demo_defs)
  have o1: "[empty_world\<lparr>clock := 1\<rparr>, all_completed\<lparr>clock := 20\<rparr>] =
      [empty_world\<lparr>clock := 1\<rparr>] @ all_completed\<lparr>clock := 20\<rparr> # []"
    and o2: "[empty_world\<lparr>clock := 1\<rparr>, empty_world\<lparr>clock := 301\<rparr>] =
      [empty_world\<lparr>clock := 1\<rparr>] @ empty_world\<lparr>clock := 301\<rparr> # []"
    by simp_all
  have a: "snd (process_file demo_env ''a.mp4'' empty_world
      [empty_world, empty_world\<lparr>clock := 1\<rparr>, all_completed\<lparr>clock := 20\<rparr>]) = Some (result ?s)"
    using process_file_polls_for_300_seconds
        [of demo_env "''a.mp4''" empty_world empty_world
            "[empty_world\<lparr>clock := 1\<rparr>, all_completed\<lparr>clock := 20\<rparr>]"]
      o1 pre live l st(1)
    by blast
  have b: "snd (process_file demo_env ''a.mp4'' empty_world
      [empty_world, empty_world\<lparr>clock := 1\<rparr>, empty_world\<lparr>clock := 301\<rparr>]) = Some PNone"
    using process_file_polls_for_300_seconds
        [of demo_env "''a.mp4''" empty_world empty_world
            "[empty_world\<lparr>clock := 1\<rparr>, empty_world\<lparr>clock := 301\<rparr>]"]
      o2 pre late
    by blast
  show ?thesis using a b l st(2) by simp
qed

text \<open>
  A caller that wants to wait 10 seconds is not served: with the Export record completed
  after 20 seconds, \<open>runToCompletion\<close> with that timeout signals the timeout, and
  \<open>process_file\<close> returns the result.
\<close>

theorem caller_timeout_counterexample:
  "runToCompletion_spec demo_env 10 ''a.mp4'' 0
     [empty_world\<lparr>clock := 1\<rparr>, all_completed\<lparr>clock := 20\<rparr>] = Some PNone \<and>
   snd (process_file demo_env ''a.mp4'' empty_world
      [empty_world, empty_world\<lparr>clock := 1\<rparr>, all_completed\<lparr>clock := 20\<rparr>]) =
     Some (PSegments demo_segments)"
  by (simp add: process_file_def max_wait_time_def store_defs demo_defs float_defs Let_def)

section \<open>Intervals that share a span\<close>

text \<open>
  C10, as amended. When \<open>d2\<close> is the last interval of the diarization list with its span,
  the speaker timeline has one entry for that span and it carries the label of \<open>d2\<close>; a
  word whose midpoint lies in that span, and in no interval that stands in the list
  before the first interval with that span, is given the label of \<open>d2\<close>.
\<close>

theorem duplicate_span_last_label:
  assumes "ds = front @ d2 # post"
    and "\<forall>d\<in>set post. (d_start d, d_end d) \<noteq> (d_start d2, d_end d2)"
  shows "map_of (speaker_timeline ds) (d_start d2, d_end d2) = Some (d_speaker d2) \<and>
    distinct (map fst (speaker_timeline ds)) \<and>
    (\<forall>wd. d_start d2 \<le> word_mid_point e wd \<and> word_mid_point e wd \<le> d_end d2 \<and>
       (\<forall>d\<in>set (takeWhile (\<lambda>d. (d_start d, d_end d) \<noteq> (d_start d2, d_end d2)) ds).
          \<not> (d_start d \<le> word_mid_point e wd \<and> word_mid_point e wd \<le> d_end d)) \<longrightarrow>
       w_speaker (assign_word e (speaker_timeline ds) wd) = Some (d_speaker d2))"
proof -
  let ?k0 = "(d_start d2, d_end d2)"
  have label: "map_of (speaker_timeline ds) ?k0 = Some (d_speaker d2)"
    using assms by (rule speaker_timeline_last_label)
  then have key: "?k0 \<in> fst ` set (speaker_timeline ds)"
    by (metis domI dom_map_of_conv_image_fst)
  have word: "w_speaker (assign_word e (speaker_timeline ds) wd) = Some (d_speaker d2)"
    if m: "d_start d2 \<le> word_mid_point e wd" "word_mid_point e wd \<le> d_end d2"
      and before: "\<forall>d\<in>set (takeWhile (\<lambda>d. (d_start d, d_end d) \<noteq> ?k0) ds).
          \<not> (d_start d \<le> word_mid_point e wd \<and> word_mid_point e wd \<le> d_end d)"
    for wd
  proof -
    have "\<forall>k\<in>set (takeWhile (\<lambda>k. k \<noteq> ?k0) (map fst (speaker_timeline ds))).
        \<not> (fst k \<le> word_mid_point e wd \<and> word_mid_point e wd \<le> snd k)"
      using keys_before [of ?k0 ds] before by fastforce
    then have "Some (find_speaker (speaker_timeline ds) (word_mid_point e wd) ''UNKNOWN'') =
        map_of (speaker_timeline ds) ?k0"
      using key m by (intro find_speaker_at_key) simp_all
    then show ?thesis by (simp add: assign_word_def label)
  qed
  show ?thesis using label speaker_timeline_keys_distinct word by blast
qed

theorem duplicate_span_last_label_witness:
  "duplicate_intervals =
     [\<lparr>d_start = 1, d_end = 2, d_speaker = ''A''\<rparr>, \<lparr>d_start = 5, d_end = 6, d_speaker = ''C''\<rparr>] @
     \<lparr>d_start = 1, d_end = 2, d_speaker = ''B''\<rparr> # [] \<and>
   map_of (speaker_timeline duplicate_intervals) (1, 2) = Some ''B'' \<and>
   w_speaker (assign_word demo_env (speaker_timeline duplicate_intervals) demo_word) = Some ''B''"
proof -
  let ?d2 = "\<lparr>d_start = 1, d_end = 2, d_speaker = ''B''\<rparr>"
  have split: "duplicate_intervals =
     [\<lparr>d_start = 1, d_end = 2, d_speaker = ''A''\<rparr>, \<lparr>d_start = 5, d_end = 6, d_speaker = ''C''\<rparr>] @ ?d2 # []"
    by (simp add: duplicate_intervals_def)
  have last: "\<forall>d\<in>set []. (d_start d, d_end d) \<noteq> (d_start ?d2, d_end ?d2)"
    by simp
  note inst = duplicate_span_last_label [OF split last, of demo_env]
  have pre: "d_start ?d2 \<le> word_mid_point demo_env demo_word \<and> word_mid_point demo_env demo_word \<le> d_end ?d2 \<and>
       (\<forall>d\<in>set (takeWhile (\<lambda>d. (d_start d, d_end d) \<noteq> (d_start ?d2, d_end ?d2)) duplicate_intervals).
          \<not> (d_start d \<le> word_mid_point demo_env demo_word \<and> word_mid_point demo_env demo_word \<le> d_end d))"
    by (simp add: duplicate_intervals_def demo_word_def float_defs demo_env_def)
  show ?thesis using inst pre split by simp
qed

text \<open>
  Without the condition on the earlier intervals the claim fails: the interval
  \<open>(0, 10, X)\<close> stands before the two intervals of span \<open>[1, 2]\<close> and contains the
  midpoint \<open>3/2\<close>, so the word is given \<open>X\<close>, not the label \<open>B\<close> of the last duplicate.
\<close>

theorem duplicate_span_counterexample:
  "d_start (overlapping_intervals ! 2) \<le> word_mid_point demo_env demo_word \<and>
   word_mid_point demo_env demo_word \<le> d_end (overlapping_intervals ! 2) \<and>
   d_speaker (overlapping_intervals ! 2) = ''B'' \<and>
   w_speaker (assign_word demo_env (speaker_timeline overlapping_intervals) demo_word) = Some ''X''"
  by (simp add: overlapping_intervals_def demo_word_def float_defs demo_env_def assign_word_def
      speaker_timeline_def)

end
